theory Spec2Isabelle
  imports Main
begin

section \<open>Session state of the renovation tools (tools.py)\<close>

text \<open>
  The tools keep their bookkeeping in \<^verbatim>\<open>tool_context.state\<close>, a dictionary with string
  keys. The keys the tools use are the fixed names \<^verbatim>\<open>asset_versions\<close>,
  \<^verbatim>\<open>asset_filenames\<close>, \<^verbatim>\<open>last_generated_rendering\<close>, \<^verbatim>\<open>current_asset_name\<close>,
  \<^verbatim>\<open>latest_reference_image\<close>, and one key \<^verbatim>\<open>f"{asset_name}_history"\<close> per asset. None of
  the fixed names ends in \<^verbatim>\<open>_history\<close>, and appending \<^verbatim>\<open>_history\<close> is injective, so the
  dictionary is the record below: one optional field per fixed key (\<open>None\<close>: the key is
  absent) and a map from asset names to history lists for the per-asset keys.

  A history entry \<^verbatim>\<open>{"version": v, "filename": f}\<close> is the pair \<open>(v, f)\<close>. Python's
  integers are unbounded: versions are \<open>int\<close>.
\<close>

type_synonym history_entry = "int \<times> string"

record state =
  asset_versions :: "(string \<rightharpoonup> int) option"
  asset_filenames :: "(string \<rightharpoonup> string) option"
  history :: "string \<rightharpoonup> history_entry list"
  last_generated_rendering :: "string option"
  current_asset_name :: "string option"
  latest_reference_image :: "string option"

text \<open>The state of a fresh session: no key is present.\<close>

definition empty_state :: state where
  "empty_state =
     \<lparr>asset_versions = None, asset_filenames = None, history = Map.empty,
      last_generated_rendering = None, current_asset_name = None,
      latest_reference_image = None\<rparr>"

text \<open>\<^verbatim>\<open>d.get(key, default)\<close> on an optional dictionary and on a dictionary.\<close>

definition get_dict :: "('k \<rightharpoonup> 'v) option \<Rightarrow> ('k \<rightharpoonup> 'v)" where
  "get_dict d = (case d of None \<Rightarrow> Map.empty | Some m \<Rightarrow> m)"

definition get_default :: "('k \<rightharpoonup> 'v) \<Rightarrow> 'k \<Rightarrow> 'v \<Rightarrow> 'v" where
  "get_default m k d = (case m k of None \<Rightarrow> d | Some v \<Rightarrow> v)"

subsection \<open>Helper functions for asset version management\<close>

text \<open>
  \<^verbatim>\<open>get_next_version_number\<close> (tools.py 19-24). Every function that receives the tool
  context returns the state it leaves behind next to its result.
\<close>

definition get_next_version_number :: "state \<Rightarrow> string \<Rightarrow> int \<times> state" where
  "get_next_version_number s asset_name =
     (let versions = get_dict (asset_versions s);
          current_version = get_default versions asset_name 0;
          next_version = current_version + 1
      in (next_version, s))"

text \<open>\<^verbatim>\<open>update_asset_version\<close> (tools.py 27-41): no check of any kind on \<open>version\<close>.\<close>

definition update_asset_version :: "state \<Rightarrow> string \<Rightarrow> int \<Rightarrow> string \<Rightarrow> state" where
  "update_asset_version s asset_name version filename =
     (let s1 = (if asset_versions s = None then s\<lparr>asset_versions := Some Map.empty\<rparr> else s);
          s2 = (if asset_filenames s1 = None then s1\<lparr>asset_filenames := Some Map.empty\<rparr> else s1);
          s3 = s2\<lparr>asset_versions := Some ((get_dict (asset_versions s2))(asset_name \<mapsto> version))\<rparr>;
          s4 = s3\<lparr>asset_filenames := Some ((get_dict (asset_filenames s3))(asset_name \<mapsto> filename))\<rparr>;
          s5 = (if history s4 asset_name = None
                then s4\<lparr>history := (history s4)(asset_name \<mapsto> [])\<rparr> else s4)
      in s5\<lparr>history := (history s5)(asset_name \<mapsto>
              get_default (history s5) asset_name [] @ [(version, filename)])\<rparr>)"

subsection \<open>Strings\<close>

text \<open>
  \<^verbatim>\<open>str(n)\<close> of a Python integer, as an f-string writes it: decimal digits, most
  significant first, a minus sign before a negative number.
\<close>

definition digit_char :: "nat \<Rightarrow> char" where
  "digit_char d = ''0123456789'' ! d"

function str_nat :: "nat \<Rightarrow> string" where
  "str_nat n = (if n < 10 then [digit_char n] else str_nat (n div 10) @ [digit_char (n mod 10)])"
  by pat_completeness auto
termination
  by (relation "measure id") auto

declare str_nat.simps [simp del]

definition str_int :: "int \<Rightarrow> string" where
  "str_int i = (if i < 0 then CHR ''-'' # str_nat (nat (- i)) else str_nat (nat i))"

text \<open>
  \<^verbatim>\<open>create_versioned_filename\<close> (tools.py 44-46). The parameter \<open>file_extension\<close> has the
  default \<^verbatim>\<open>"png"\<close>; both tools call the function with two arguments.
\<close>

definition create_versioned_filename :: "string \<Rightarrow> int \<Rightarrow> string \<Rightarrow> string" where
  "create_versioned_filename asset_name version file_extension =
     asset_name @ ''_v'' @ str_int version @ ''.'' @ file_extension"

definition default_extension :: string where
  "default_extension = ''png''"

text \<open>
  \<^verbatim>\<open>sep in s\<close> and \<^verbatim>\<open>s.split(sep)\<close> for a non-empty separator: Python scans from the
  left and cuts at each occurrence, without overlaps. \<open>find_sep\<close> returns the text before
  and after the first occurrence.
\<close>

definition starts_with :: "string \<Rightarrow> string \<Rightarrow> bool" where
  "starts_with s sep = (take (length sep) s = sep)"

fun find_sep :: "string \<Rightarrow> string \<Rightarrow> (string \<times> string) option" where
  "find_sep sep [] = (if sep = [] then Some ([], []) else None)"
| "find_sep sep (c # cs) =
     (if starts_with (c # cs) sep then Some ([], drop (length sep) (c # cs))
      else (case find_sep sep cs of
              None \<Rightarrow> None
            | Some (before, after) \<Rightarrow> Some (c # before, after)))"

definition py_in :: "string \<Rightarrow> string \<Rightarrow> bool" where
  "py_in sep s = (find_sep sep s \<noteq> None)"

lemma find_sep_shorter:
  "find_sep sep s = Some (before, after) \<Longrightarrow> sep \<noteq> [] \<Longrightarrow> length after < length s"
proof (induction s arbitrary: before)
  case Nil
  then show ?case by simp
next
  case (Cons c cs)
  show ?case
  proof (cases "starts_with (c # cs) sep")
    case True
    with Cons.prems show ?thesis by (cases sep) auto
  next
    case False
    with Cons.prems obtain b where "find_sep sep cs = Some (b, after)"
      by (auto split: option.splits)
    from Cons.IH [OF this Cons.prems(2)] show ?thesis by simp
  qed
qed

text \<open>
  Python raises \<^verbatim>\<open>ValueError\<close> for an empty separator; the tools only split at the
  literal \<^verbatim>\<open>'_v'\<close>, and the model returns the unsplit string there.
\<close>

function py_split :: "string \<Rightarrow> string \<Rightarrow> string list" where
  "py_split sep s =
     (if sep = [] then [s]
      else (case find_sep sep s of
              None \<Rightarrow> [s]
            | Some (before, after) \<Rightarrow> before # py_split sep after))"
  by pat_completeness auto
termination
  by (relation "measure (\<lambda>(sep, s). length s)") (auto dest: find_sep_shorter)

declare py_split.simps [simp del]

section \<open>Collaborators of the tools\<close>

text \<open>
  Exceptions are values. \<open>exn\<close> stands for the subclasses of Python's \<^verbatim>\<open>Exception\<close>, the
  ones an \<^verbatim>\<open>except Exception\<close> clause catches; the string is the exception's text.
\<close>

datatype exn =
    ValueError string
  | IndexError
  | AttributeError string
  | ValidationError string
  | ExternalError string

text \<open>
  The texts the two tools return, by template and parameters:
  \<^item> \<open>GeneratedOK f v a\<close>: "Renovation rendering generated successfully! Saved as: **f**
    (version v of a)";
  \<^item> \<open>NoRenderingGenerated\<close>: "No rendering was generated. Please try again.";
  \<^item> \<open>GenerateError e\<close>: "An error occurred: e";
  \<^item> \<open>CouldNotFindImage f\<close>: "Could not find image: f. Please ensure the image was uploaded
    or generated.";
  \<^item> \<open>EditedOK f v a\<close>: "Rendering edited successfully! Saved as: **f** (version v of a) ...";
  \<^item> \<open>NoEditedRenderingGenerated\<close>: "No edited rendering was generated. Please try again.";
  \<^item> \<open>EditError e\<close>: "An error occurred while editing the rendering: e".
  A tool call ends in \<open>Inl e\<close> when the exception \<open>e\<close> leaves the function and in
  \<open>Inr m\<close> when it returns the text \<open>m\<close>.
\<close>

datatype message =
    GeneratedOK string int string
  | NoRenderingGenerated
  | GenerateError exn
  | CouldNotFindImage string
  | EditedOK string int string
  | NoEditedRenderingGenerated
  | EditError exn

fun is_success :: "message \<Rightarrow> bool" where
  "is_success (GeneratedOK f v a) = True"
| "is_success (EditedOK f v a) = True"
| "is_success m = False"

text \<open>
  The objects of the generative model's interface (\<^verbatim>\<open>google.genai.types\<close>), as far as the
  tools read them: a streamed chunk has optional candidates, a candidate optional content,
  content an optional list of parts, a part optional inline data and optional text.
  Inline data is a blob of bytes with its MIME type. Two such objects are equal in Python
  when their fields are, which is the equality of the datatypes.
\<close>

type_synonym bytes = string

datatype blob = Blob (blob_data: "bytes option") (mime_type: "string option")

datatype part = Part (inline_data: "blob option") (part_text: "string option")

datatype content = Content (parts: "part list option")

datatype candidate = Candidate (cand_content: "content option")

datatype chunk = Chunk (candidates: "candidate list option") (chunk_text: "string option")

text \<open>Iterating the response stream either yields the next chunk or raises.\<close>

datatype stream_item = Yield chunk | StreamRaises exn

text \<open>
  The request that rewrites the prompt (tools.py 244-276), by the branch that builds it
  and the values the f-string interpolates: the description, the aspect ratio, and whether
  the sentence about inspiration or reference images is appended.
\<close>

datatype rewrite_request =
    ModifyBaseImage string string bool
  | CreateNewImage string string bool

text \<open>
  What a call finds around it. Each field is the behaviour of one collaborator during
  the call: the process environment, the client constructor, the artifact service of the
  tool context (\<open>save_artifact = None\<close>: the context has no such attribute), the hosted
  model, the table of \<^verbatim>\<open>mimetypes.guess_type\<close>, and whether reading or writing a local
  file raises.
\<close>

record env =
  os_environ :: "string set"
  new_client :: "exn option"
  load_artifact :: "string \<Rightarrow> exn + part option"
  save_artifact :: "(string \<Rightarrow> part \<Rightarrow> exn + int) option"
  generate_content :: "rewrite_request \<Rightarrow> exn + string option"
  generate_content_stream :: "part list \<Rightarrow> stream_item list"
  guess_type :: "string \<Rightarrow> string option"
  read_raises :: "string \<Rightarrow> bool"
  write_raises :: "string \<Rightarrow> bool"

text \<open>
  What a call can change: the session state and the files of the working directory.
  The state is taken as a plain dictionary, a call runs from start to end with no other
  call in between (the tools are coroutines that the framework awaits one at a time),
  and a write that raises is taken to leave the files as they were.
\<close>

record world =
  st :: state
  files :: "string \<rightharpoonup> bytes"

text \<open>
  The tools' arguments (the pydantic input models, tools.py 182-194). The framework
  passes either the model object or a dictionary, from which the tool builds the object;
  \<open>AsDict (Inl e)\<close> is a dictionary the constructor refuses with \<open>e\<close>.
\<close>

record generate_inputs =
  gen_prompt :: string
  aspect_ratio :: string
  gen_asset_name :: string
  current_room_photo :: "string option"
  inspiration_image :: "string option"

record edit_inputs =
  artifact_filename :: string
  edit_prompt :: string
  edit_asset_name :: "string option"
  reference_image_filename :: "string option"

datatype 'a tool_args = AsModel 'a | AsDict "exn + 'a"

fun coerce_inputs :: "'a tool_args \<Rightarrow> exn + 'a" where
  "coerce_inputs (AsModel i) = Inr i"
| "coerce_inputs (AsDict r) = r"

text \<open>Python's truth value of an optional string: \<^verbatim>\<open>None\<close> and \<^verbatim>\<open>""\<close> are false.\<close>

definition truthy :: "string option \<Rightarrow> bool" where
  "truthy x = (case x of None \<Rightarrow> False | Some s \<Rightarrow> s \<noteq> [])"

text \<open>The string behind a true optional string; \<open>None\<close> when it is false.\<close>

definition truthy_value :: "string option \<Rightarrow> string option" where
  "truthy_value x = (if truthy x then x else None)"

subsection \<open>Loading and saving\<close>

text \<open>\<^verbatim>\<open>load_reference_image\<close> (tools.py 81-93): every exception ends in \<^verbatim>\<open>None\<close>.\<close>

definition load_reference_image :: "env \<Rightarrow> string \<Rightarrow> part option" where
  "load_reference_image e filename =
     (case load_artifact e filename of
        Inl err \<Rightarrow> None
      | Inr None \<Rightarrow> None
      | Inr (Some loaded_part) \<Rightarrow> Some loaded_part)"

text \<open>
  \<^verbatim>\<open>load_image_from_file\<close> (tools.py 96-127): \<^verbatim>\<open>None\<close> when the file does not exist or
  reading it raises. The MIME type is the one guessed from the file name, and
  \<^verbatim>\<open>image/png\<close> when none is guessed.
\<close>

definition load_image_from_file :: "env \<Rightarrow> world \<Rightarrow> string \<Rightarrow> part option" where
  "load_image_from_file e w filename =
     (case files w filename of
        None \<Rightarrow> None
      | Some image_bytes \<Rightarrow>
          (let mime = (case truthy_value (guess_type e filename) of
                         None \<Rightarrow> ''image/png''
                       | Some guessed \<Rightarrow> guessed)
           in if read_raises e filename then None
              else Some (Part (Some (Blob (Some image_bytes) (Some mime))) None)))"

definition get_latest_reference_image_filename :: "state \<Rightarrow> string option" where
  "get_latest_reference_image_filename s = latest_reference_image s"

text \<open>
  \<^verbatim>\<open>save_artifact_safely\<close> (tools.py 148-175): \<^verbatim>\<open>(True, version)\<close> when the service saved
  the artifact, \<^verbatim>\<open>(False, None)\<close> when the context has no \<^verbatim>\<open>save_artifact\<close> or the call
  raises, whatever it raises.
\<close>

definition save_artifact_safely :: "env \<Rightarrow> string \<Rightarrow> part \<Rightarrow> bool \<times> int option" where
  "save_artifact_safely e filename artifact =
     (case save_artifact e of
        None \<Rightarrow> (False, None)
      | Some save \<Rightarrow>
          (case save filename artifact of
             Inr artifact_version \<Rightarrow> (True, Some artifact_version)
           | Inl (AttributeError m) \<Rightarrow> (False, None)
           | Inl err \<Rightarrow> (False, None)))"

text \<open>
  \<^verbatim>\<open>with open(name, "wb") as f: f.write(data)\<close> inside \<^verbatim>\<open>try ... except Exception\<close>
  (tools.py 319-324 and 473-478): a failure is logged and the tool goes on.
\<close>

definition write_to_disk :: "env \<Rightarrow> world \<Rightarrow> string \<Rightarrow> bytes \<Rightarrow> world" where
  "write_to_disk e w filename data =
     (if write_raises e filename then w else w\<lparr>files := (files w)(filename \<mapsto> data)\<rparr>)"

text \<open>
  The image a part carries: \<^verbatim>\<open>part.inline_data and part.inline_data.data\<close> is true when
  the inline data is there and its bytes are there and not empty.
\<close>

definition image_data :: "part \<Rightarrow> (blob \<times> bytes) option" where
  "image_data p =
     (case inline_data p of
        None \<Rightarrow> None
      | Some b \<Rightarrow>
          (case blob_data b of
             None \<Rightarrow> None
           | Some d \<Rightarrow> if d = [] then None else Some (b, d)))"

text \<open>The two API-key variables the tools look for (tools.py 205 and 369).\<close>

definition api_key_set :: "env \<Rightarrow> bool" where
  "api_key_set e = (\<not> (''GEMINI_API_KEY'' \<notin> os_environ e \<and> ''GOOGLE_API_KEY'' \<notin> os_environ e))"

definition missing_key_error :: exn where
  "missing_key_error = ValueError ''GEMINI_API_KEY or GOOGLE_API_KEY environment variable not set.''"

section \<open>The image generation tool\<close>

text \<open>
  The reference images of a generation request (tools.py 216-242): the current room photo
  and the inspiration image, each loaded as an artifact first and as a file second. The
  result is \<open>(current_room_part, reference_images)\<close>.
\<close>

definition load_either :: "env \<Rightarrow> world \<Rightarrow> string \<Rightarrow> part option" where
  "load_either e w filename =
     (case load_reference_image e filename of
        Some p \<Rightarrow> Some p
      | None \<Rightarrow> load_image_from_file e w filename)"

definition generate_reference_images ::
  "env \<Rightarrow> world \<Rightarrow> generate_inputs \<Rightarrow> part option \<times> part list" where
  "generate_reference_images e w inputs =
     (let (current_room_part, reference_images) =
            (case truthy_value (current_room_photo inputs) of
               None \<Rightarrow> (None, [])
             | Some photo_filename \<Rightarrow>
                 (case load_either e w photo_filename of
                    None \<Rightarrow> (None, [])
                  | Some current_photo_part \<Rightarrow> (Some current_photo_part, [current_photo_part])));
          insp_filename =
            (if truthy (inspiration_image inputs)
             then (if inspiration_image inputs = Some ''latest''
                   then get_latest_reference_image_filename (st w)
                   else inspiration_image inputs)
             else None)
      in (current_room_part,
          (case truthy_value insp_filename of
             None \<Rightarrow> reference_images
           | Some filename \<Rightarrow>
               (case load_either e w filename of
                  None \<Rightarrow> reference_images
                | Some inspiration_part \<Rightarrow> reference_images @ [inspiration_part]))))"

text \<open>The prompt-rewriting request (tools.py 244-269).\<close>

definition base_rewrite_prompt :: "generate_inputs \<Rightarrow> part list \<Rightarrow> rewrite_request" where
  "base_rewrite_prompt inputs reference_images =
     (let has_base_image = (current_room_photo inputs \<noteq> None)
      in if has_base_image
         then ModifyBaseImage (gen_prompt inputs) (aspect_ratio inputs)
                (truthy (inspiration_image inputs))
         else CreateNewImage (gen_prompt inputs) (aspect_ratio inputs)
                (reference_images \<noteq> []))"

text \<open>The parts of the image request (tools.py 282-292).\<close>

definition generate_content_parts ::
  "generate_inputs \<Rightarrow> part option \<Rightarrow> part list \<Rightarrow> string option \<Rightarrow> part list" where
  "generate_content_parts inputs current_room_part reference_images rewritten_prompt =
     (let has_base_image = (current_room_photo inputs \<noteq> None)
      in case current_room_part of
           Some base \<Rightarrow>
             if has_base_image
             then [base, Part None rewritten_prompt] @ filter (\<lambda>ref_img. ref_img \<noteq> base) reference_images
             else Part None rewritten_prompt # reference_images
         | None \<Rightarrow> Part None rewritten_prompt # reference_images)"

text \<open>
  The first part of a chunk as the generation loop reads it (tools.py 310-311): the
  truth values guard every index, so a chunk without candidates, content or parts is
  skipped.
\<close>

definition first_part_guarded :: "chunk \<Rightarrow> part option" where
  "first_part_guarded c =
     (case candidates c of
        None \<Rightarrow> None
      | Some [] \<Rightarrow> None
      | Some (cand # cands) \<Rightarrow>
          (case cand_content cand of
             None \<Rightarrow> None
           | Some ct \<Rightarrow>
               (case parts ct of
                  None \<Rightarrow> None
                | Some [] \<Rightarrow> None
                | Some (p # ps) \<Rightarrow> Some p)))"

text \<open>
  What the loop body does once a chunk carries image data (tools.py 314-348): write the
  file, compute the version again, record the rendering in the state, try the artifact
  service, commit a version and return. The version committed is the artifact service's
  when it saved the artifact and returned a non-zero version, the locally computed one
  otherwise; the text returned names the locally computed one in both cases. The
  source's local variable \<^verbatim>\<open>artifact_filename\<close> is \<open>rendering_filename\<close> here.
\<close>

definition generate_image_found ::
  "env \<Rightarrow> world \<Rightarrow> string \<Rightarrow> string \<Rightarrow> blob \<Rightarrow> bytes \<Rightarrow> message \<times> world" where
  "generate_image_found e w asset_name rendering_filename inline data =
     (let w1 = write_to_disk e w rendering_filename data;
          image_part = Part (Some inline) None;
          (version, s1) = get_next_version_number (st w1) asset_name;
          s2 = s1\<lparr>last_generated_rendering := Some rendering_filename\<rparr>;
          s3 = s2\<lparr>current_asset_name := Some asset_name\<rparr>;
          (artifact_saved, artifact_version) = save_artifact_safely e rendering_filename image_part;
          s4 = (case artifact_version of
                  Some av \<Rightarrow>
                    if artifact_saved \<and> av \<noteq> 0
                    then update_asset_version s3 asset_name av rendering_filename
                    else update_asset_version s3 asset_name version rendering_filename
                | None \<Rightarrow> update_asset_version s3 asset_name version rendering_filename)
      in (GeneratedOK rendering_filename version asset_name, w1\<lparr>st := s4\<rparr>))"

text \<open>
  The loop over the stream (tools.py 305-354). An exception raised by the iteration
  leaves the loop; running out of chunks ends in "No rendering was generated".
\<close>

fun generate_loop ::
  "env \<Rightarrow> string \<Rightarrow> string \<Rightarrow> stream_item list \<Rightarrow> world \<Rightarrow> (exn + message) \<times> world" where
  "generate_loop e asset_name rendering_filename [] w = (Inr NoRenderingGenerated, w)"
| "generate_loop e asset_name rendering_filename (StreamRaises err # rest) w = (Inl err, w)"
| "generate_loop e asset_name rendering_filename (Yield c # rest) w =
     (case first_part_guarded c of
        None \<Rightarrow> generate_loop e asset_name rendering_filename rest w
      | Some p \<Rightarrow>
          (case image_data p of
             None \<Rightarrow> generate_loop e asset_name rendering_filename rest w
           | Some (inline, data) \<Rightarrow>
               (case generate_image_found e w asset_name rendering_filename inline data of
                  (m, w') \<Rightarrow> (Inr m, w'))))"

text \<open>The body of the \<^verbatim>\<open>try\<close> block (tools.py 210-354).\<close>

definition generate_try :: "env \<Rightarrow> world \<Rightarrow> generate_inputs tool_args \<Rightarrow> (exn + message) \<times> world" where
  "generate_try e w args =
     (case new_client e of
        Some err \<Rightarrow> (Inl err, w)
      | None \<Rightarrow>
          (case coerce_inputs args of
             Inl err \<Rightarrow> (Inl err, w)
           | Inr inputs \<Rightarrow>
               (let (current_room_part, reference_images) = generate_reference_images e w inputs
                in case generate_content e (base_rewrite_prompt inputs reference_images) of
                     Inl err \<Rightarrow> (Inl err, w)
                   | Inr rewritten_prompt \<Rightarrow>
                       (let content_parts = generate_content_parts inputs current_room_part
                                              reference_images rewritten_prompt;
                            (version, s1) = get_next_version_number (st w) (gen_asset_name inputs);
                            rendering_filename = create_versioned_filename (gen_asset_name inputs)
                                                  version default_extension
                        in generate_loop e (gen_asset_name inputs) rendering_filename
                             (generate_content_stream e content_parts) (w\<lparr>st := s1\<rparr>)))))"

text \<open>
  \<^verbatim>\<open>generate_renovation_rendering\<close> (tools.py 201-358). The check of the API key stands
  before the \<^verbatim>\<open>try\<close>: its \<^verbatim>\<open>ValueError\<close> leaves the function. Inside the \<^verbatim>\<open>try\<close>, every
  exception becomes the text "An error occurred: ...".
\<close>

definition generate_renovation_rendering ::
  "env \<Rightarrow> world \<Rightarrow> generate_inputs tool_args \<Rightarrow> (exn + message) \<times> world" where
  "generate_renovation_rendering e w args =
     (if ''GEMINI_API_KEY'' \<notin> os_environ e \<and> ''GOOGLE_API_KEY'' \<notin> os_environ e
      then (Inl missing_key_error, w)
      else (case generate_try e w args of
              (Inl err, w') \<Rightarrow> (Inr (GenerateError err), w')
            | (Inr m, w') \<Rightarrow> (Inr m, w')))"

section \<open>The image editing tool\<close>

text \<open>
  Loading the rendering to edit (tools.py 382-398): the artifact first, where an exception
  is logged and ignored, then the file.
\<close>

definition edit_load_image :: "env \<Rightarrow> world \<Rightarrow> string \<Rightarrow> part option" where
  "edit_load_image e w filename =
     (let loaded_image_part =
            (case load_artifact e filename of
               Inl err \<Rightarrow> None
             | Inr loaded \<Rightarrow> loaded)
      in case loaded_image_part of
           Some p \<Rightarrow> Some p
         | None \<Rightarrow> load_image_from_file e w filename)"

text \<open>The optional reference image of an edit (tools.py 403-414): artifacts only.\<close>

definition edit_reference_image :: "env \<Rightarrow> world \<Rightarrow> edit_inputs \<Rightarrow> part option" where
  "edit_reference_image e w inputs =
     (let ref_filename =
            (if truthy (reference_image_filename inputs)
             then (if reference_image_filename inputs = Some ''latest''
                   then get_latest_reference_image_filename (st w)
                   else reference_image_filename inputs)
             else None)
      in case truthy_value ref_filename of
           None \<Rightarrow> None
         | Some filename \<Rightarrow> load_reference_image e filename)"

text \<open>
  The asset name of the new version (tools.py 437-447): the name given, else the
  session's current asset name, else the start of the file name up to \<^verbatim>\<open>'_v'\<close>, else
  \<^verbatim>\<open>"renovation_rendering"\<close>. \<^verbatim>\<open>s.split('_v')[0]\<close> is the head of the list the split
  returns, which is never empty.
\<close>

definition resolve_asset_name :: "state \<Rightarrow> edit_inputs \<Rightarrow> string" where
  "resolve_asset_name s inputs =
     (case truthy_value (edit_asset_name inputs) of
        Some given_name \<Rightarrow> given_name
      | None \<Rightarrow>
          (case truthy_value (current_asset_name s) of
             Some current \<Rightarrow> current
           | None \<Rightarrow>
               (if py_in ''_v'' (artifact_filename inputs)
                then (case py_split ''_v'' (artifact_filename inputs) of
                        base_name # pieces \<Rightarrow> base_name
                      | [] \<Rightarrow> [])
                else ''renovation_rendering'')))"

text \<open>
  The first part of a chunk as the editing loop reads it (tools.py 459-466): only
  \<^verbatim>\<open>None\<close> is guarded, so an empty list of candidates or of parts raises \<^verbatim>\<open>IndexError\<close>
  at the index. \<open>Inr None\<close> is the \<^verbatim>\<open>continue\<close>.
\<close>

definition first_part_indexed :: "chunk \<Rightarrow> exn + part option" where
  "first_part_indexed c =
     (case candidates c of
        None \<Rightarrow> Inr None
      | Some [] \<Rightarrow> Inl IndexError
      | Some (cand # cands) \<Rightarrow>
          (case cand_content cand of
             None \<Rightarrow> Inr None
           | Some ct \<Rightarrow>
               (case parts ct of
                  None \<Rightarrow> Inr None
                | Some [] \<Rightarrow> Inl IndexError
                | Some (p # ps) \<Rightarrow> Inr (Some p))))"

text \<open>
  What the loop body does once a chunk carries image data (tools.py 467-499): write the
  file, compute the version again and commit it, record the rendering in the state, try
  the artifact service (its result is only logged) and return.
\<close>

definition edit_image_found ::
  "env \<Rightarrow> world \<Rightarrow> string \<Rightarrow> string \<Rightarrow> blob \<Rightarrow> bytes \<Rightarrow> message \<times> world" where
  "edit_image_found e w asset_name edited_filename inline data =
     (let edited_image_part = Part (Some inline) None;
          w1 = write_to_disk e w edited_filename data;
          (version, s1) = get_next_version_number (st w1) asset_name;
          s2 = update_asset_version s1 asset_name version edited_filename;
          s3 = s2\<lparr>last_generated_rendering := Some edited_filename\<rparr>;
          s4 = s3\<lparr>current_asset_name := Some asset_name\<rparr>;
          (artifact_saved, artifact_version) = save_artifact_safely e edited_filename edited_image_part
      in (EditedOK edited_filename version asset_name, w1\<lparr>st := s4\<rparr>))"

text \<open>The loop over the stream (tools.py 454-505).\<close>

fun edit_loop ::
  "env \<Rightarrow> string \<Rightarrow> string \<Rightarrow> stream_item list \<Rightarrow> world \<Rightarrow> (exn + message) \<times> world" where
  "edit_loop e asset_name edited_filename [] w = (Inr NoEditedRenderingGenerated, w)"
| "edit_loop e asset_name edited_filename (StreamRaises err # rest) w = (Inl err, w)"
| "edit_loop e asset_name edited_filename (Yield c # rest) w =
     (case first_part_indexed c of
        Inl err \<Rightarrow> (Inl err, w)
      | Inr None \<Rightarrow> edit_loop e asset_name edited_filename rest w
      | Inr (Some p) \<Rightarrow>
          (case image_data p of
             None \<Rightarrow> edit_loop e asset_name edited_filename rest w
           | Some (inline, data) \<Rightarrow>
               (case edit_image_found e w asset_name edited_filename inline data of
                  (m, w') \<Rightarrow> (Inr m, w'))))"

text \<open>
  The body of the \<^verbatim>\<open>try\<close> block (tools.py 375-505). The source's local variable
  \<^verbatim>\<open>edited_artifact_filename\<close> is \<open>edited_filename\<close> here.
\<close>

definition edit_try :: "env \<Rightarrow> world \<Rightarrow> edit_inputs tool_args \<Rightarrow> (exn + message) \<times> world" where
  "edit_try e w args =
     (case new_client e of
        Some err \<Rightarrow> (Inl err, w)
      | None \<Rightarrow>
          (case coerce_inputs args of
             Inl err \<Rightarrow> (Inl err, w)
           | Inr inputs \<Rightarrow>
               (case edit_load_image e w (artifact_filename inputs) of
                  None \<Rightarrow> (Inr (CouldNotFindImage (artifact_filename inputs)), w)
                | Some loaded_image_part \<Rightarrow>
                    (let reference_image_part = edit_reference_image e w inputs;
                         content_parts =
                           [loaded_image_part, Part None (Some (edit_prompt inputs))] @
                           (case reference_image_part of None \<Rightarrow> [] | Some r \<Rightarrow> [r]);
                         asset_name = resolve_asset_name (st w) inputs;
                         (version, s1) = get_next_version_number (st w) asset_name;
                         edited_filename = create_versioned_filename asset_name version
                                             default_extension
                     in edit_loop e asset_name edited_filename
                          (generate_content_stream e content_parts) (w\<lparr>st := s1\<rparr>)))))"

text \<open>
  \<^verbatim>\<open>edit_renovation_rendering\<close> (tools.py 364-509), with the same check of the API key
  before the \<^verbatim>\<open>try\<close>.
\<close>

definition edit_renovation_rendering ::
  "env \<Rightarrow> world \<Rightarrow> edit_inputs tool_args \<Rightarrow> (exn + message) \<times> world" where
  "edit_renovation_rendering e w args =
     (if ''GEMINI_API_KEY'' \<notin> os_environ e \<and> ''GOOGLE_API_KEY'' \<notin> os_environ e
      then (Inl missing_key_error, w)
      else (case edit_try e w args of
              (Inl err, w') \<Rightarrow> (Inr (EditError err), w')
            | (Inr m, w') \<Rightarrow> (Inr m, w')))"

section \<open>Invariants of the version store\<close>

text \<open>The versions an asset's history records, oldest first.\<close>

definition versions_of :: "state \<Rightarrow> string \<Rightarrow> int list" where
  "versions_of s a = map fst (get_default (history s) a [])"

text \<open>
  The store is consistent when, for every asset, the two dictionaries hold the version and
  file name of the last history entry, and hold nothing for an asset without history.
\<close>

definition store_consistent :: "state \<Rightarrow> bool" where
  "store_consistent s =
     (\<forall>a. case history s a of
            None \<Rightarrow> get_dict (asset_versions s) a = None \<and> get_dict (asset_filenames s) a = None
          | Some h \<Rightarrow> h \<noteq> [] \<and> get_dict (asset_versions s) a = Some (fst (last h))
                        \<and> get_dict (asset_filenames s) a = Some (snd (last h)))"

text \<open>
  The versions are contiguous when every asset's history counts \<open>1, 2, ..., n\<close> and the
  asset's current version is \<open>n\<close>.
\<close>

definition contiguous :: "state \<Rightarrow> bool" where
  "contiguous s =
     (\<forall>a. versions_of s a = [1..int (length (versions_of s a))]
          \<and> get_default (get_dict (asset_versions s)) a 0 = int (length (versions_of s a)))"

text \<open>
  The specification's words for the split: \<open>sep\<close> occurs in \<open>s\<close>, and \<open>base\<close> is the portion
  of \<open>s\<close> before the first occurrence of \<open>sep\<close> (no occurrence starts earlier).
\<close>

definition occurs_in :: "string \<Rightarrow> string \<Rightarrow> bool" where
  "occurs_in sep s = (\<exists>p q. s = p @ sep @ q)"

definition before_first_occurrence :: "string \<Rightarrow> string \<Rightarrow> string \<Rightarrow> bool" where
  "before_first_occurrence sep s base =
     ((\<exists>rest. s = base @ sep @ rest) \<and> (\<forall>p q. s = p @ sep @ q \<longrightarrow> length base \<le> length p))"

section \<open>Words of the specification about a response stream\<close>

text \<open>
  The image data a chunk offers: that of the first part of the first candidate's content,
  where all of these exist.
\<close>

definition chunk_image :: "chunk \<Rightarrow> (blob \<times> bytes) option" where
  "chunk_image c =
     (case candidates c of
        Some (cand # cands) \<Rightarrow>
          (case cand_content cand of
             Some ct \<Rightarrow> (case parts ct of Some (p # ps) \<Rightarrow> image_data p | _ \<Rightarrow> None)
           | None \<Rightarrow> None)
      | _ \<Rightarrow> None)"

text \<open>
  The external call fails or produces no image: the stream ends, or raises, before it
  has yielded a chunk with image data.
\<close>

fun no_image_reached :: "stream_item list \<Rightarrow> bool" where
  "no_image_reached [] = True"
| "no_image_reached (StreamRaises err # rest) = True"
| "no_image_reached (Yield c # rest) = (chunk_image c = None \<and> no_image_reached rest)"

section \<open>Example calls\<close>

text \<open>A chunk that carries an image, and one that carries text.\<close>

definition image_chunk :: "bytes \<Rightarrow> chunk" where
  "image_chunk d =
     Chunk (Some [Candidate (Some (Content (Some
       [Part (Some (Blob (Some d) (Some ''image/png''))) None])))]) None"

definition text_chunk :: "string \<Rightarrow> chunk" where
  "text_chunk t =
     Chunk (Some [Candidate (Some (Content (Some [Part None (Some t)])))]) (Some t)"

text \<open>
  A call as the Streamlit front end sets it up (frontend.py runs the agent with a
  session service and no artifact service): an API key, loading and saving an artifact
  raise, the model answers the rewriting request, and the working directory can be read
  and written. The stream is empty here; the examples put their own in its place.
\<close>

definition no_artifact_service :: exn where
  "no_artifact_service = ValueError ''Artifact service is not initialized.''"

definition frontend_env :: env where
  "frontend_env =
     \<lparr>os_environ = {''GOOGLE_API_KEY''},
      new_client = None,
      load_artifact = (\<lambda>filename. Inl no_artifact_service),
      save_artifact = Some (\<lambda>filename artifact. Inl no_artifact_service),
      generate_content = (\<lambda>request. Inr (Some ''a bright modern kitchen'')),
      generate_content_stream = (\<lambda>content_parts. []),
      guess_type = (\<lambda>filename. if filename = ''room.jpg'' then Some ''image/jpeg''
                                 else Some ''image/png''),
      read_raises = (\<lambda>filename. False),
      write_raises = (\<lambda>filename. False)\<rparr>"

definition fresh_world :: world where
  "fresh_world = \<lparr>st = empty_state, files = Map.empty\<rparr>"

definition kitchen_request :: generate_inputs where
  "kitchen_request =
     \<lparr>gen_prompt = ''modern farmhouse kitchen'', aspect_ratio = ''16:9'',
      gen_asset_name = ''kitchen'', current_room_photo = None, inspiration_image = None\<rparr>"

definition kitchen_edit :: edit_inputs where
  "kitchen_edit =
     \<lparr>artifact_filename = ''kitchen_v1.png'', edit_prompt = ''make the cabinets cream'',
      edit_asset_name = None, reference_image_filename = None\<rparr>"

text \<open>A model that only talks, a model whose stream breaks, and a missing API key.\<close>

definition talking_env :: env where
  "talking_env =
     frontend_env\<lparr>generate_content_stream :=
       (\<lambda>content_parts. [Yield (text_chunk ''I cannot draw this.'')])\<rparr>"

definition overloaded_env :: env where
  "overloaded_env =
     frontend_env\<lparr>generate_content_stream :=
       (\<lambda>content_parts. [Yield (text_chunk ''Working on it''),
                           StreamRaises (ExternalError ''503 UNAVAILABLE'')])\<rparr>"

definition keyless_env :: env where
  "keyless_env = frontend_env\<lparr>os_environ := {''PATH''}\<rparr>"

text \<open>A session that has rendered the kitchen once, with the file on disk.\<close>

definition kitchen_world :: world where
  "kitchen_world =
     \<lparr>st = (update_asset_version empty_state ''kitchen'' 1 ''kitchen_v1.png'')
              \<lparr>last_generated_rendering := Some ''kitchen_v1.png'',
               current_asset_name := Some ''kitchen''\<rparr>,
      files = Map.empty(''kitchen_v1.png'' \<mapsto> ''PNG1'')\<rparr>"





text \<open>A model that answers with some text and then the image.\<close>

definition drawing_env :: env where
  "drawing_env =
     frontend_env\<lparr>generate_content_stream :=
       (\<lambda>content_parts. [Yield (text_chunk ''Here is your rendering''),
                           Yield (image_chunk ''PNG2'')])\<rparr>"


text \<open>An uploaded photo in a session that has rendered nothing, and edits of it.\<close>

definition upload_world :: world where
  "upload_world = \<lparr>st = empty_state, files = Map.empty(''room.jpg'' \<mapsto> ''JPEG'')\<rparr>"

definition room_edit :: edit_inputs where
  "room_edit =
     \<lparr>artifact_filename = ''room.jpg'', edit_prompt = ''improve this kitchen'',
      edit_asset_name = None, reference_image_filename = None\<rparr>"

definition bath_edit :: edit_inputs where
  "bath_edit =
     \<lparr>artifact_filename = ''bath_v3_v1.png'', edit_prompt = ''add plants'',
      edit_asset_name = Some [], reference_image_filename = None\<rparr>"

text \<open>
  An artifact service that already holds two versions under the file name it is given,
  and so returns version 2 for the next save.
\<close>

definition resaving_env :: env where
  "resaving_env = drawing_env\<lparr>save_artifact := Some (\<lambda>filename artifact. Inr 2)\<rparr>"

section \<open>Sequences of calls in one session\<close>

text \<open>
  A session is a sequence of tool calls, each in its own surroundings, the world of one
  call being the world the call before left (also when that call raised).
\<close>

datatype call =
    Generate env "generate_inputs tool_args"
  | Edit env "edit_inputs tool_args"

fun run_call :: "call \<Rightarrow> world \<Rightarrow> world" where
  "run_call (Generate e args) w = snd (generate_renovation_rendering e w args)"
| "run_call (Edit e args) w = snd (edit_renovation_rendering e w args)"

fun run_calls :: "call list \<Rightarrow> world \<Rightarrow> world" where
  "run_calls [] w = w"
| "run_calls (c # cs) w = run_calls cs (run_call c w)"

text \<open>
  The artifact service of a call never returns a version other than 0, the version of
  a file name's first save: it is absent, or it raises, or it returns 0.
\<close>

definition first_saves_only :: "env \<Rightarrow> bool" where
  "first_saves_only e =
     (case save_artifact e of
        None \<Rightarrow> True
      | Some save \<Rightarrow> (\<forall>filename artifact v. save filename artifact = Inr v \<longrightarrow> v = 0))"

fun commits_local_version :: "call \<Rightarrow> bool" where
  "commits_local_version (Generate e args) = first_saves_only e"
| "commits_local_version (Edit e args) = True"

section \<open>Properties of the version store\<close>

lemma update_asset_version_versions:
  "asset_versions (update_asset_version s a v f) = Some ((get_dict (asset_versions s))(a \<mapsto> v))"
  by (simp add: update_asset_version_def Let_def get_dict_def)

lemma update_asset_version_filenames:
  "asset_filenames (update_asset_version s a v f) = Some ((get_dict (asset_filenames s))(a \<mapsto> f))"
  by (simp add: update_asset_version_def Let_def get_dict_def)

lemma update_asset_version_history:
  "history (update_asset_version s a v f) =
     (history s)(a \<mapsto> get_default (history s) a [] @ [(v, f)])"
  by (auto simp add: update_asset_version_def Let_def get_default_def fun_eq_iff
      split: option.splits)

lemma update_asset_version_other:
  "last_generated_rendering (update_asset_version s a v f) = last_generated_rendering s"
  "current_asset_name (update_asset_version s a v f) = current_asset_name s"
  "latest_reference_image (update_asset_version s a v f) = latest_reference_image s"
  by (simp_all add: update_asset_version_def Let_def)

lemma get_next_version_number_fst:
  "fst (get_next_version_number s a) = get_default (get_dict (asset_versions s)) a 0 + 1"
  by (simp add: get_next_version_number_def Let_def)

lemma get_next_version_number_snd: "snd (get_next_version_number s a) = s"
  by (simp add: get_next_version_number_def Let_def)

lemma store_consistent_empty: "store_consistent empty_state"
  by (simp add: store_consistent_def empty_state_def get_dict_def)

lemma store_consistent_update:
  assumes "store_consistent s"
  shows "store_consistent (update_asset_version s a v f)"
  unfolding store_consistent_def
proof
  fix b
  from assms have old:
    "case history s b of
       None \<Rightarrow> get_dict (asset_versions s) b = None \<and> get_dict (asset_filenames s) b = None
     | Some h \<Rightarrow> h \<noteq> [] \<and> get_dict (asset_versions s) b = Some (fst (last h))
                   \<and> get_dict (asset_filenames s) b = Some (snd (last h))"
    unfolding store_consistent_def by blast
  show "case history (update_asset_version s a v f) b of
          None \<Rightarrow> get_dict (asset_versions (update_asset_version s a v f)) b = None
                  \<and> get_dict (asset_filenames (update_asset_version s a v f)) b = None
        | Some h \<Rightarrow> h \<noteq> []
            \<and> get_dict (asset_versions (update_asset_version s a v f)) b = Some (fst (last h))
            \<and> get_dict (asset_filenames (update_asset_version s a v f)) b = Some (snd (last h))"
  proof (cases "b = a")
    case True
    then show ?thesis
      by (simp add: update_asset_version_versions update_asset_version_filenames
          update_asset_version_history get_dict_def)
  next
    case False
    with old show ?thesis
      by (simp add: update_asset_version_versions update_asset_version_filenames
          update_asset_version_history get_dict_def split: option.splits)
  qed
qed

text \<open>
  C1 (amended). \<^verbatim>\<open>update_asset_version\<close> has no sequence check: a commit whose version is
  not the current version plus one is carried out like any other. It appends
  \<open>(version, filename)\<close> to the asset's history and sets the current version and the
  current file name to the values given.
\<close>

theorem out_of_sequence_commit_is_stored:
  assumes "version \<noteq> fst (get_next_version_number s asset_name)"
  shows "history (update_asset_version s asset_name version filename) asset_name
           = Some (get_default (history s) asset_name [] @ [(version, filename)])
         \<and> get_dict (asset_versions (update_asset_version s asset_name version filename)) asset_name
           = Some version
         \<and> get_dict (asset_filenames (update_asset_version s asset_name version filename)) asset_name
           = Some filename"
  by (simp add: update_asset_version_history update_asset_version_versions
      update_asset_version_filenames get_dict_def)

theorem out_of_sequence_commit_is_stored_witness:
  "(7::int) \<noteq> fst (get_next_version_number empty_state ''kitchen'')
   \<and> history (update_asset_version empty_state ''kitchen'' 7 ''kitchen_v7.png'') ''kitchen''
       = Some [(7, ''kitchen_v7.png'')]
   \<and> get_dict (asset_versions (update_asset_version empty_state ''kitchen'' 7 ''kitchen_v7.png''))
       ''kitchen'' = Some 7
   \<and> get_dict (asset_filenames (update_asset_version empty_state ''kitchen'' 7 ''kitchen_v7.png''))
       ''kitchen'' = Some ''kitchen_v7.png''"
proof -
  have h: "(7::int) \<noteq> fst (get_next_version_number empty_state ''kitchen'')"
    by (simp add: get_next_version_number_def empty_state_def get_dict_def get_default_def)
  from out_of_sequence_commit_is_stored [OF h, of "''kitchen_v7.png''"] h
  show ?thesis by (simp add: empty_state_def get_default_def)
qed

text \<open>
  C1 as the specification states it fails: in a fresh session the next version of
  \<^verbatim>\<open>"kitchen"\<close> is 1, and the commit of version 5 is nevertheless appended to the empty
  history and becomes the current version.
\<close>

theorem out_of_sequence_commit_counterexample:
  "fst (get_next_version_number empty_state ''kitchen'') = 1
   \<and> history empty_state ''kitchen'' = None
   \<and> history (update_asset_version empty_state ''kitchen'' 5 ''kitchen_v5.png'') ''kitchen''
       = Some [(5, ''kitchen_v5.png'')]
   \<and> asset_versions empty_state = None
   \<and> get_dict (asset_versions (update_asset_version empty_state ''kitchen'' 5 ''kitchen_v5.png''))
       ''kitchen'' = Some 5
   \<and> get_dict (asset_filenames (update_asset_version empty_state ''kitchen'' 5 ''kitchen_v5.png''))
       ''kitchen'' = Some ''kitchen_v5.png''"
  by (simp add: get_next_version_number_def update_asset_version_def empty_state_def
      get_dict_def get_default_def Let_def)

text \<open>
  C3. After \<^verbatim>\<open>update_asset_version(a, v, f)\<close> the current-version dictionary holds \<open>v\<close> for
  \<open>a\<close>, the current-filename dictionary holds \<open>f\<close>, the history of \<open>a\<close> is not empty and
  its last entry is \<open>(v, f)\<close>, and \<^verbatim>\<open>get_next_version_number(a)\<close> returns \<open>v + 1\<close>.
\<close>

theorem commit_then_latest_and_next:
  "(\<exists>versions. asset_versions (update_asset_version s a v f) = Some versions \<and> versions a = Some v)
   \<and> (\<exists>filenames. asset_filenames (update_asset_version s a v f) = Some filenames
         \<and> filenames a = Some f)
   \<and> (\<exists>h. history (update_asset_version s a v f) a = Some h \<and> h \<noteq> [] \<and> last h = (v, f))
   \<and> fst (get_next_version_number (update_asset_version s a v f) a) = v + 1"
  by (simp add: update_asset_version_history update_asset_version_versions
      update_asset_version_filenames get_next_version_number_fst get_dict_def get_default_def)

theorem commit_then_latest_and_next_witness:
  "asset_versions (update_asset_version empty_state ''kitchen_renovation'' 1
       ''kitchen_renovation_v1.png'') \<noteq> None
   \<and> get_dict (asset_versions (update_asset_version empty_state ''kitchen_renovation'' 1
       ''kitchen_renovation_v1.png'')) ''kitchen_renovation'' = Some 1
   \<and> get_dict (asset_filenames (update_asset_version empty_state ''kitchen_renovation'' 1
       ''kitchen_renovation_v1.png'')) ''kitchen_renovation'' = Some ''kitchen_renovation_v1.png''
   \<and> history (update_asset_version empty_state ''kitchen_renovation'' 1
       ''kitchen_renovation_v1.png'') ''kitchen_renovation''
       = Some [(1, ''kitchen_renovation_v1.png'')]
   \<and> fst (get_next_version_number (update_asset_version empty_state ''kitchen_renovation'' 1
       ''kitchen_renovation_v1.png'') ''kitchen_renovation'') = 2"
  using commit_then_latest_and_next [of empty_state "''kitchen_renovation''" 1
      "''kitchen_renovation_v1.png''"]
  by (auto simp add: get_dict_def update_asset_version_history empty_state_def get_default_def)

text \<open>
  C6. \<^verbatim>\<open>get_next_version_number\<close> leaves the state as it found it and returns the stored
  current version plus one: \<open>v + 1\<close> when the version dictionary holds \<open>v\<close> for the asset,
  and 1 when the dictionary is absent or has no entry for the asset. In a consistent
  store an asset without history has no entry, so the result is 1.
\<close>

theorem next_version_is_a_pure_read:
  "snd (get_next_version_number s a) = s
   \<and> (\<forall>versions v. asset_versions s = Some versions \<and> versions a = Some v
         \<longrightarrow> fst (get_next_version_number s a) = v + 1)
   \<and> (asset_versions s = None \<or> (\<exists>versions. asset_versions s = Some versions \<and> versions a = None)
         \<longrightarrow> fst (get_next_version_number s a) = 1)
   \<and> (store_consistent s \<and> history s a = None \<longrightarrow> fst (get_next_version_number s a) = 1)"
  by (auto simp add: get_next_version_number_def Let_def get_dict_def get_default_def
      store_consistent_def split: option.splits)

theorem next_version_is_a_pure_read_witness:
  "snd (get_next_version_number
          (update_asset_version empty_state ''kitchen'' 4 ''kitchen_v4.png'') ''kitchen'')
     = update_asset_version empty_state ''kitchen'' 4 ''kitchen_v4.png''
   \<and> fst (get_next_version_number
          (update_asset_version empty_state ''kitchen'' 4 ''kitchen_v4.png'') ''kitchen'') = 5
   \<and> fst (get_next_version_number
          (update_asset_version empty_state ''kitchen'' 4 ''kitchen_v4.png'') ''bathroom'') = 1
   \<and> store_consistent (update_asset_version empty_state ''kitchen'' 4 ''kitchen_v4.png'')
   \<and> history (update_asset_version empty_state ''kitchen'' 4 ''kitchen_v4.png'') ''bathroom'' = None
   \<and> fst (get_next_version_number empty_state ''kitchen'') = 1"
proof -
  let ?s = "update_asset_version empty_state ''kitchen'' 4 ''kitchen_v4.png''"
  have versions: "asset_versions ?s = Some (Map.empty(''kitchen'' \<mapsto> 4))"
    by (simp add: update_asset_version_versions empty_state_def get_dict_def)
  have consistent: "store_consistent ?s"
    by (rule store_consistent_update [OF store_consistent_empty])
  have no_history: "history ?s ''bathroom'' = None"
    by (simp add: update_asset_version_history empty_state_def)
  have fresh: "asset_versions empty_state = None"
    by (simp add: empty_state_def)
  from next_version_is_a_pure_read [of ?s "''kitchen''"] versions
  have a: "snd (get_next_version_number ?s ''kitchen'') = ?s"
    and b: "fst (get_next_version_number ?s ''kitchen'') = 5"
    by auto
  from next_version_is_a_pure_read [of ?s "''bathroom''"] consistent no_history
  have c: "fst (get_next_version_number ?s ''bathroom'') = 1"
    by blast
  from next_version_is_a_pure_read [of empty_state "''kitchen''"] fresh
  have d: "fst (get_next_version_number empty_state ''kitchen'') = 1"
    by blast
  from a b c d consistent no_history show ?thesis by blast
qed

section \<open>Properties of the string functions\<close>

lemma starts_with_iff: "starts_with s sep = (\<exists>q. s = sep @ q)"
proof
  assume "starts_with s sep"
  then have "s = sep @ drop (length sep) s"
    unfolding starts_with_def by (metis append_take_drop_id)
  then show "\<exists>q. s = sep @ q" ..
next
  assume "\<exists>q. s = sep @ q"
  then show "starts_with s sep"
    unfolding starts_with_def by auto
qed

lemma find_sep_None:
  "find_sep sep s = None \<Longrightarrow> \<not> occurs_in sep s"
proof (induction s)
  case Nil
  then show ?case by (auto simp: occurs_in_def split: if_splits)
next
  case (Cons c cs)
  from Cons.prems have ns: "\<not> starts_with (c # cs) sep" and rest: "find_sep sep cs = None"
    by (auto split: if_splits option.splits)
  from Cons.IH [OF rest] have no: "\<not> occurs_in sep cs" .
  show ?case
  proof
    assume "occurs_in sep (c # cs)"
    then obtain p q where pq: "c # cs = p @ sep @ q"
      unfolding occurs_in_def by blast
    show False
    proof (cases p)
      case Nil
      with pq have "starts_with (c # cs) sep"
        by (auto simp: starts_with_iff)
      with ns show False by simp
    next
      case (Cons x p')
      with pq have "cs = p' @ sep @ q" by simp
      with no show False unfolding occurs_in_def by blast
    qed
  qed
qed

lemma find_sep_Some:
  "find_sep sep s = Some (before, after) \<Longrightarrow>
     s = before @ sep @ after \<and> (\<forall>p q. s = p @ sep @ q \<longrightarrow> length before \<le> length p)"
proof (induction s arbitrary: before)
  case Nil
  then show ?case by (auto split: if_splits)
next
  case (Cons c cs)
  show ?case
  proof (cases "starts_with (c # cs) sep")
    case True
    with Cons.prems have b: "before = []" and a: "after = drop (length sep) (c # cs)"
      by auto
    from True have "c # cs = sep @ drop (length sep) (c # cs)"
      unfolding starts_with_def by (metis append_take_drop_id)
    with a b show ?thesis by simp
  next
    case False
    with Cons.prems obtain b where rest: "find_sep sep cs = Some (b, after)"
      and before: "before = c # b"
      by (auto split: option.splits)
    from Cons.IH [OF rest]
    have eq: "cs = b @ sep @ after"
      and least: "\<forall>p q. cs = p @ sep @ q \<longrightarrow> length b \<le> length p"
      by blast+
    have "length before \<le> length p" if pq: "c # cs = p @ sep @ q" for p q
    proof (cases p)
      case Nil
      with pq have "starts_with (c # cs) sep"
        by (auto simp: starts_with_iff)
      with False show ?thesis by simp
    next
      case (Cons x p')
      with pq have "cs = p' @ sep @ q" by simp
      with least have "length b \<le> length p'" by blast
      with Cons before show ?thesis by simp
    qed
    with eq before show ?thesis by simp
  qed
qed

lemma py_in_iff: "py_in sep s = occurs_in sep s"
proof (cases "find_sep sep s")
  case None
  then show ?thesis
    using find_sep_None [OF None] by (simp add: py_in_def)
next
  case (Some r)
  obtain b a where r: "r = (b, a)" by (cases r)
  from find_sep_Some [OF Some [unfolded r]] have "s = b @ sep @ a" by blast
  then have "occurs_in sep s" unfolding occurs_in_def by blast
  with Some show ?thesis by (simp add: py_in_def)
qed

lemma py_split_head:
  assumes "sep \<noteq> []" and "occurs_in sep s"
  shows "\<exists>base pieces. py_split sep s = base # pieces \<and> before_first_occurrence sep s base"
proof -
  from assms(2) have "find_sep sep s \<noteq> None"
    using find_sep_None by blast
  then obtain b a where f: "find_sep sep s = Some (b, a)" by auto
  from find_sep_Some [OF f] have "before_first_occurrence sep s b"
    unfolding before_first_occurrence_def by blast
  moreover from f assms(1) have "py_split sep s = b # py_split sep a"
    by (simp add: py_split.simps)
  ultimately show ?thesis by blast
qed

lemma py_split_without_sep:
  "\<not> occurs_in sep s \<Longrightarrow> py_split sep s = [s]"
  by (cases "find_sep sep s") (auto simp: py_split.simps py_in_iff [symmetric] py_in_def)

section \<open>Properties of the two tools\<close>

lemma st_write_to_disk: "st (write_to_disk e w filename data) = st w"
  by (simp add: write_to_disk_def)


text \<open>The version a successful generation commits.\<close>

lemma generate_image_found_fst:
  "fst (generate_image_found e w a fn inline data) =
     GeneratedOK fn (fst (get_next_version_number (st w) a)) a"
  by (simp add: generate_image_found_def Let_def st_write_to_disk get_next_version_number_def
      split: prod.splits option.splits)


lemma generate_image_found_st:
  "\<exists>v. st (snd (generate_image_found e w a fn inline data)) =
         update_asset_version
           ((st w)\<lparr>last_generated_rendering := Some fn, current_asset_name := Some a\<rparr>) a v fn
       \<and> (v = fst (get_next_version_number (st w) a)
          \<or> (\<exists>save. save_artifact e = Some save \<and> save fn (Part (Some inline) None) = Inr v \<and> v \<noteq> 0))"
  by (auto simp add: generate_image_found_def Let_def st_write_to_disk get_next_version_number_def
      save_artifact_safely_def split: prod.splits option.splits sum.splits exn.splits)

lemma generate_image_found_st_local:
  assumes "save_artifact_safely e fn (Part (Some inline) None) = (saved, av)"
    and "\<not> saved \<or> av = None \<or> av = Some 0"
  shows "st (snd (generate_image_found e w a fn inline data)) =
         update_asset_version
           ((st w)\<lparr>last_generated_rendering := Some fn, current_asset_name := Some a\<rparr>) a
           (fst (get_next_version_number (st w) a)) fn"
  using assms
  by (auto simp add: generate_image_found_def Let_def st_write_to_disk get_next_version_number_def
      split: prod.splits option.splits)

lemma edit_image_found_fst:
  "fst (edit_image_found e w a fn inline data) =
     EditedOK fn (fst (get_next_version_number (st w) a)) a"
  by (simp add: edit_image_found_def Let_def st_write_to_disk get_next_version_number_def
      split: prod.splits)


lemma edit_image_found_st:
  "st (snd (edit_image_found e w a fn inline data)) =
     (update_asset_version (st w) a (fst (get_next_version_number (st w) a)) fn)
       \<lparr>last_generated_rendering := Some fn, current_asset_name := Some a\<rparr>"
  by (simp add: edit_image_found_def Let_def st_write_to_disk get_next_version_number_def
      split: prod.splits)

text \<open>How the two loops can end.\<close>

lemma generate_loop_cases:
  "generate_loop e a fn xs w = (Inr NoRenderingGenerated, w)
   \<or> (\<exists>err. generate_loop e a fn xs w = (Inl err, w))
   \<or> (\<exists>inline data. generate_loop e a fn xs w =
          (Inr (fst (generate_image_found e w a fn inline data)),
           snd (generate_image_found e w a fn inline data)))"
proof (induction xs)
  case Nil
  show ?case by simp
next
  case (Cons x xs)
  show ?case
  proof (cases x)
    case (StreamRaises err)
    then show ?thesis by simp
  next
    case (Yield c)
    show ?thesis
    proof (cases "first_part_guarded c")
      case None
      with Yield Cons.IH show ?thesis by simp
    next
      case (Some p)
      show ?thesis
      proof (cases "image_data p")
        case None
        with Yield Some Cons.IH show ?thesis by simp
      next
        case found: (Some r)
        obtain inline data where "r = (inline, data)" by (cases r)
        with Yield Some found
        have "generate_loop e a fn (x # xs) w =
                (Inr (fst (generate_image_found e w a fn inline data)),
                 snd (generate_image_found e w a fn inline data))"
          by (simp split: prod.splits)
        then show ?thesis by blast
      qed
    qed
  qed
qed

lemma edit_loop_cases:
  "edit_loop e a fn xs w = (Inr NoEditedRenderingGenerated, w)
   \<or> (\<exists>err. edit_loop e a fn xs w = (Inl err, w))
   \<or> (\<exists>inline data. edit_loop e a fn xs w =
          (Inr (fst (edit_image_found e w a fn inline data)),
           snd (edit_image_found e w a fn inline data)))"
proof (induction xs)
  case Nil
  show ?case by simp
next
  case (Cons x xs)
  show ?case
  proof (cases x)
    case (StreamRaises err)
    then show ?thesis by simp
  next
    case (Yield c)
    show ?thesis
    proof (cases "first_part_indexed c")
      case (Inl err)
      with Yield show ?thesis by simp
    next
      case (Inr r)
      show ?thesis
      proof (cases r)
        case None
        with Yield Inr Cons.IH show ?thesis by simp
      next
        case (Some p)
        show ?thesis
        proof (cases "image_data p")
          case None
          with Yield Inr Some Cons.IH show ?thesis by simp
        next
          case found: (Some r')
          obtain inline data where "r' = (inline, data)" by (cases r')
          with Yield Inr Some found
          have "edit_loop e a fn (x # xs) w =
                  (Inr (fst (edit_image_found e w a fn inline data)),
                   snd (edit_image_found e w a fn inline data))"
            by (simp split: prod.splits)
          then show ?thesis by blast
        qed
      qed
    qed
  qed
qed

text \<open>How the two \<^verbatim>\<open>try\<close> blocks can end.\<close>

lemma generate_try_cases:
  "(\<exists>err. generate_try e w args = (Inl err, w))
   \<or> generate_try e w args = (Inr NoRenderingGenerated, w)
   \<or> (\<exists>inputs inline data.
         coerce_inputs args = Inr inputs
         \<and> generate_try e w args =
             (Inr (fst (generate_image_found e w (gen_asset_name inputs)
                     (create_versioned_filename (gen_asset_name inputs)
                        (fst (get_next_version_number (st w) (gen_asset_name inputs)))
                        default_extension) inline data)),
              snd (generate_image_found e w (gen_asset_name inputs)
                     (create_versioned_filename (gen_asset_name inputs)
                        (fst (get_next_version_number (st w) (gen_asset_name inputs)))
                        default_extension) inline data)))"
proof (cases "new_client e")
  case (Some err)
  then show ?thesis by (simp add: generate_try_def)
next
  case None
  show ?thesis
  proof (cases "coerce_inputs args")
    case (Inl err)
    with None show ?thesis by (simp add: generate_try_def)
  next
    case (Inr inputs)
    obtain crp refs where refs: "generate_reference_images e w inputs = (crp, refs)"
      by (cases "generate_reference_images e w inputs")
    show ?thesis
    proof (cases "generate_content e (base_rewrite_prompt inputs refs)")
      case (Inl err)
      with None Inr refs show ?thesis by (simp add: generate_try_def)
    next
      case rewritten: (Inr rp)
      let ?a = "gen_asset_name inputs"
      let ?fn = "create_versioned_filename ?a (fst (get_next_version_number (st w) ?a))
                   default_extension"
      let ?xs = "generate_content_stream e (generate_content_parts inputs crp refs rp)"
      from None Inr refs rewritten
      have eq: "generate_try e w args = generate_loop e ?a ?fn ?xs w"
        by (simp add: generate_try_def Let_def get_next_version_number_def)
      from generate_loop_cases [of e ?a ?fn ?xs w] show ?thesis
        unfolding eq using Inr by blast
    qed
  qed
qed

lemma edit_try_cases:
  "(\<exists>err. edit_try e w args = (Inl err, w))
   \<or> edit_try e w args = (Inr NoEditedRenderingGenerated, w)
   \<or> (\<exists>inputs. coerce_inputs args = Inr inputs
         \<and> edit_load_image e w (artifact_filename inputs) = None
         \<and> edit_try e w args = (Inr (CouldNotFindImage (artifact_filename inputs)), w))
   \<or> (\<exists>inputs inline data.
         coerce_inputs args = Inr inputs
         \<and> edit_load_image e w (artifact_filename inputs) \<noteq> None
         \<and> edit_try e w args =
             (Inr (fst (edit_image_found e w (resolve_asset_name (st w) inputs)
                     (create_versioned_filename (resolve_asset_name (st w) inputs)
                        (fst (get_next_version_number (st w) (resolve_asset_name (st w) inputs)))
                        default_extension) inline data)),
              snd (edit_image_found e w (resolve_asset_name (st w) inputs)
                     (create_versioned_filename (resolve_asset_name (st w) inputs)
                        (fst (get_next_version_number (st w) (resolve_asset_name (st w) inputs)))
                        default_extension) inline data)))"
proof (cases "new_client e")
  case (Some err)
  then show ?thesis by (simp add: edit_try_def)
next
  case None
  show ?thesis
  proof (cases "coerce_inputs args")
    case (Inl err)
    with None show ?thesis by (simp add: edit_try_def)
  next
    case (Inr inputs)
    show ?thesis
    proof (cases "edit_load_image e w (artifact_filename inputs)")
      case no_image: None
      with None Inr show ?thesis by (simp add: edit_try_def)
    next
      case (Some loaded)
      let ?a = "resolve_asset_name (st w) inputs"
      let ?fn = "create_versioned_filename ?a (fst (get_next_version_number (st w) ?a))
                   default_extension"
      let ?xs = "generate_content_stream e
                   ([loaded, Part None (Some (edit_prompt inputs))] @
                    (case edit_reference_image e w inputs of None \<Rightarrow> [] | Some r \<Rightarrow> [r]))"
      from None Inr Some
      have eq: "edit_try e w args = edit_loop e ?a ?fn ?xs w"
        by (simp add: edit_try_def Let_def get_next_version_number_def)
      from edit_loop_cases [of e ?a ?fn ?xs w] show ?thesis
        unfolding eq using Inr Some by auto
    qed
  qed
qed

lemma generate_without_key:
  "\<not> api_key_set e \<Longrightarrow> generate_renovation_rendering e w args = (Inl missing_key_error, w)"
  by (simp add: generate_renovation_rendering_def api_key_set_def)

lemma edit_without_key:
  "\<not> api_key_set e \<Longrightarrow> edit_renovation_rendering e w args = (Inl missing_key_error, w)"
  by (simp add: edit_renovation_rendering_def api_key_set_def)

lemma generate_with_key:
  "api_key_set e \<Longrightarrow> generate_renovation_rendering e w args =
     (case generate_try e w args of
        (Inl err, w') \<Rightarrow> (Inr (GenerateError err), w')
      | (Inr m, w') \<Rightarrow> (Inr m, w'))"
  by (auto simp add: generate_renovation_rendering_def api_key_set_def)

lemma edit_with_key:
  "api_key_set e \<Longrightarrow> edit_renovation_rendering e w args =
     (case edit_try e w args of
        (Inl err, w') \<Rightarrow> (Inr (EditError err), w')
      | (Inr m, w') \<Rightarrow> (Inr m, w'))"
  by (auto simp add: edit_renovation_rendering_def api_key_set_def)

lemma first_part_guarded_image:
  "first_part_guarded c = None \<Longrightarrow> chunk_image c = None"
  "first_part_guarded c = Some p \<Longrightarrow> chunk_image c = image_data p"
  by (auto simp add: first_part_guarded_def chunk_image_def split: option.splits list.splits)

lemma first_part_indexed_image:
  "first_part_indexed c = Inl err \<Longrightarrow> chunk_image c = None"
  "first_part_indexed c = Inr None \<Longrightarrow> chunk_image c = None"
  "first_part_indexed c = Inr (Some p) \<Longrightarrow> chunk_image c = image_data p"
  by (auto simp add: first_part_indexed_def chunk_image_def split: option.splits list.splits)

lemma generate_loop_no_image:
  "no_image_reached xs \<Longrightarrow>
     generate_loop e a fn xs w = (Inr NoRenderingGenerated, w)
     \<or> (\<exists>err. generate_loop e a fn xs w = (Inl err, w))"
proof (induction xs)
  case Nil
  show ?case by simp
next
  case (Cons x xs)
  show ?case
  proof (cases x)
    case (StreamRaises err)
    then show ?thesis by simp
  next
    case (Yield c)
    with Cons.prems have none: "chunk_image c = None" and rest: "no_image_reached xs"
      by simp_all
    show ?thesis
    proof (cases "first_part_guarded c")
      case None
      with Yield Cons.IH [OF rest] show ?thesis by simp
    next
      case (Some p)
      with none have "image_data p = None"
        by (simp add: first_part_guarded_image)
      with Yield Some Cons.IH [OF rest] show ?thesis by simp
    qed
  qed
qed

lemma edit_loop_no_image:
  "no_image_reached xs \<Longrightarrow>
     edit_loop e a fn xs w = (Inr NoEditedRenderingGenerated, w)
     \<or> (\<exists>err. edit_loop e a fn xs w = (Inl err, w))"
proof (induction xs)
  case Nil
  show ?case by simp
next
  case (Cons x xs)
  show ?case
  proof (cases x)
    case (StreamRaises err)
    then show ?thesis by simp
  next
    case (Yield c)
    with Cons.prems have none: "chunk_image c = None" and rest: "no_image_reached xs"
      by simp_all
    show ?thesis
    proof (cases "first_part_indexed c")
      case (Inl err)
      with Yield show ?thesis by simp
    next
      case (Inr r)
      show ?thesis
      proof (cases r)
        case None
        with Yield Inr Cons.IH [OF rest] show ?thesis by simp
      next
        case (Some p)
        with none Inr have "image_data p = None"
          by (simp add: first_part_indexed_image)
        with Yield Inr Some Cons.IH [OF rest] show ?thesis by simp
      qed
    qed
  qed
qed

lemma generate_returns_text:
  assumes "api_key_set e"
  shows "\<exists>m. fst (generate_renovation_rendering e w args) = Inr m"
proof (cases "generate_try e w args")
  case (Pair r w')
  with assms show ?thesis
    by (cases r) (simp_all add: generate_with_key)
qed

lemma edit_returns_text:
  assumes "api_key_set e"
  shows "\<exists>m. fst (edit_renovation_rendering e w args) = Inr m"
proof (cases "edit_try e w args")
  case (Pair r w')
  with assms show ?thesis
    by (cases r) (simp_all add: edit_with_key)
qed

text \<open>A call that does not report success leaves the session state and the files alone.\<close>

lemma generate_try_failure_keeps_world:
  "generate_try e w args = (r, w') \<Longrightarrow> (\<forall>m. r = Inr m \<longrightarrow> \<not> is_success m) \<Longrightarrow> w' = w"
  using generate_try_cases [of e w args]
  by (auto simp add: generate_image_found_fst)

lemma edit_try_failure_keeps_world:
  "edit_try e w args = (r, w') \<Longrightarrow> (\<forall>m. r = Inr m \<longrightarrow> \<not> is_success m) \<Longrightarrow> w' = w"
  using edit_try_cases [of e w args]
  by (auto simp add: edit_image_found_fst)

lemma generate_failure_keeps_world:
  assumes "fst (generate_renovation_rendering e w args) = Inr m" and "\<not> is_success m"
  shows "snd (generate_renovation_rendering e w args) = w"
proof (cases "api_key_set e")
  case False
  then show ?thesis by (simp add: generate_without_key)
next
  case True
  obtain r w' where t: "generate_try e w args = (r, w')"
    by (cases "generate_try e w args")
  from assms True t have "\<forall>m'. r = Inr m' \<longrightarrow> \<not> is_success m'"
    by (cases r) (simp_all add: generate_with_key)
  from generate_try_failure_keeps_world [OF t this] True t show ?thesis
    by (cases r) (simp_all add: generate_with_key)
qed

lemma edit_failure_keeps_world:
  assumes "fst (edit_renovation_rendering e w args) = Inr m" and "\<not> is_success m"
  shows "snd (edit_renovation_rendering e w args) = w"
proof (cases "api_key_set e")
  case False
  then show ?thesis by (simp add: edit_without_key)
next
  case True
  obtain r w' where t: "edit_try e w args = (r, w')"
    by (cases "edit_try e w args")
  from assms True t have "\<forall>m'. r = Inr m' \<longrightarrow> \<not> is_success m'"
    by (cases r) (simp_all add: edit_with_key)
  from edit_try_failure_keeps_world [OF t this] True t show ?thesis
    by (cases r) (simp_all add: edit_with_key)
qed

text \<open>A stream that reaches no image data, or a client that cannot be made, ends in failure.\<close>

lemma generate_try_no_image:
  assumes "new_client e \<noteq> None \<or> (\<forall>content_parts. no_image_reached (generate_content_stream e content_parts))"
  shows "generate_try e w args = (Inr NoRenderingGenerated, w)
         \<or> (\<exists>err. generate_try e w args = (Inl err, w))"
proof (cases "new_client e")
  case (Some err)
  then show ?thesis by (simp add: generate_try_def)
next
  case None
  with assms have stream: "\<And>content_parts. no_image_reached (generate_content_stream e content_parts)"
    by simp
  show ?thesis
  proof (cases "coerce_inputs args")
    case (Inl err)
    with None show ?thesis by (simp add: generate_try_def)
  next
    case (Inr inputs)
    obtain crp refs where refs: "generate_reference_images e w inputs = (crp, refs)"
      by (cases "generate_reference_images e w inputs")
    show ?thesis
    proof (cases "generate_content e (base_rewrite_prompt inputs refs)")
      case (Inl err)
      with None Inr refs show ?thesis by (simp add: generate_try_def)
    next
      case rewritten: (Inr rp)
      let ?a = "gen_asset_name inputs"
      let ?fn = "create_versioned_filename ?a (fst (get_next_version_number (st w) ?a))
                   default_extension"
      let ?xs = "generate_content_stream e (generate_content_parts inputs crp refs rp)"
      from None Inr refs rewritten
      have eq: "generate_try e w args = generate_loop e ?a ?fn ?xs w"
        by (simp add: generate_try_def Let_def get_next_version_number_def)
      have "no_image_reached ?xs" by (rule stream)
      from generate_loop_no_image [OF this, of e ?a ?fn w] show ?thesis
        unfolding eq by blast
    qed
  qed
qed

lemma edit_try_no_image:
  assumes "new_client e \<noteq> None \<or> (\<forall>content_parts. no_image_reached (generate_content_stream e content_parts))"
  shows "\<exists>r. edit_try e w args = (r, w) \<and> (\<forall>m. r = Inr m \<longrightarrow> \<not> is_success m)"
proof (cases "new_client e")
  case (Some err)
  then show ?thesis by (simp add: edit_try_def)
next
  case None
  with assms have stream: "\<And>content_parts. no_image_reached (generate_content_stream e content_parts)"
    by simp
  show ?thesis
  proof (cases "coerce_inputs args")
    case (Inl err)
    with None show ?thesis by (simp add: edit_try_def)
  next
    case (Inr inputs)
    show ?thesis
    proof (cases "edit_load_image e w (artifact_filename inputs)")
      case no_image: None
      with None Inr show ?thesis by (simp add: edit_try_def)
    next
      case (Some loaded)
      let ?a = "resolve_asset_name (st w) inputs"
      let ?fn = "create_versioned_filename ?a (fst (get_next_version_number (st w) ?a))
                   default_extension"
      let ?xs = "generate_content_stream e
                   ([loaded, Part None (Some (edit_prompt inputs))] @
                    (case edit_reference_image e w inputs of None \<Rightarrow> [] | Some r \<Rightarrow> [r]))"
      from None Inr Some
      have eq: "edit_try e w args = edit_loop e ?a ?fn ?xs w"
        by (simp add: edit_try_def Let_def get_next_version_number_def)
      have "no_image_reached ?xs" by (rule stream)
      from edit_loop_no_image [OF this, of e ?a ?fn w] show ?thesis
        unfolding eq by auto
    qed
  qed
qed

lemmas example_defs =
  frontend_env_def talking_env_def overloaded_env_def keyless_env_def fresh_world_def
  kitchen_world_def kitchen_request_def kitchen_edit_def no_artifact_service_def
  image_chunk_def text_chunk_def empty_state_def

lemmas tool_defs =
  generate_renovation_rendering_def generate_try_def generate_reference_images_def
  base_rewrite_prompt_def generate_content_parts_def first_part_guarded_def
  generate_image_found_def edit_renovation_rendering_def edit_try_def edit_load_image_def
  edit_reference_image_def resolve_asset_name_def first_part_indexed_def edit_image_found_def
  load_either_def load_reference_image_def load_image_from_file_def
  get_latest_reference_image_filename_def save_artifact_safely_def write_to_disk_def
  image_data_def truthy_def truthy_value_def get_next_version_number_def
  update_asset_version_def get_dict_def get_default_def missing_key_error_def Let_def

lemma edit_load_image_None:
  assumes "\<forall>p. load_artifact e filename \<noteq> Inr (Some p)"
    and "files w filename = None \<or> read_raises e filename"
  shows "edit_load_image e w filename = None"
proof -
  from assms(1) have "(case load_artifact e filename of Inl err \<Rightarrow> None | Inr loaded \<Rightarrow> loaded) = None"
    by (cases "load_artifact e filename") (auto split: option.splits)
  moreover from assms(2) have "load_image_from_file e w filename = None"
    by (auto simp add: load_image_from_file_def split: option.splits)
  ultimately show ?thesis
    by (simp add: edit_load_image_def Let_def)
qed

text \<open>
  C8 (amended). With \<^verbatim>\<open>GEMINI_API_KEY\<close> or \<^verbatim>\<open>GOOGLE_API_KEY\<close> in the environment, every
  call of \<^verbatim>\<open>generate_renovation_rendering\<close> and of \<^verbatim>\<open>edit_renovation_rendering\<close> returns a
  text, whatever the collaborators do: every exception raised inside is caught and
  turned into a message. With neither variable set, both tools raise \<^verbatim>\<open>ValueError\<close> to
  the caller, from the check that stands before the \<^verbatim>\<open>try\<close>, and change nothing.
\<close>

theorem failures_become_text_when_key_is_set:
  "(api_key_set e \<longrightarrow>
      (\<exists>m. fst (generate_renovation_rendering e w generate_args) = Inr m)
      \<and> (\<exists>m. fst (edit_renovation_rendering e w edit_args) = Inr m))
   \<and> (\<not> api_key_set e \<longrightarrow>
      generate_renovation_rendering e w generate_args = (Inl missing_key_error, w)
      \<and> edit_renovation_rendering e w edit_args = (Inl missing_key_error, w))"
  using generate_returns_text [of e w generate_args] edit_returns_text [of e w edit_args]
    generate_without_key [of e w generate_args] edit_without_key [of e w edit_args]
  by blast

theorem failures_become_text_when_key_is_set_witness:
  "api_key_set overloaded_env
   \<and> fst (generate_renovation_rendering overloaded_env fresh_world (AsModel kitchen_request))
       = Inr (GenerateError (ExternalError ''503 UNAVAILABLE''))
   \<and> fst (edit_renovation_rendering overloaded_env kitchen_world
            (AsDict (Inl (ValidationError ''prompt: field required''))))
       = Inr (EditError (ValidationError ''prompt: field required''))
   \<and> \<not> api_key_set keyless_env
   \<and> generate_renovation_rendering keyless_env fresh_world (AsModel kitchen_request)
       = (Inl missing_key_error, fresh_world)
   \<and> edit_renovation_rendering keyless_env fresh_world (AsModel kitchen_edit)
       = (Inl missing_key_error, fresh_world)"
proof -
  have key: "api_key_set overloaded_env" and no_key: "\<not> api_key_set keyless_env"
    by (simp_all add: api_key_set_def example_defs)
  have g: "fst (generate_renovation_rendering overloaded_env fresh_world (AsModel kitchen_request))
       = Inr (GenerateError (ExternalError ''503 UNAVAILABLE''))"
    by (simp add: tool_defs example_defs chunk_image_def)
  have d: "fst (edit_renovation_rendering overloaded_env kitchen_world
            (AsDict (Inl (ValidationError ''prompt: field required''))))
       = Inr (EditError (ValidationError ''prompt: field required''))"
    by (simp add: tool_defs example_defs)
  from failures_become_text_when_key_is_set
         [of keyless_env fresh_world "AsModel kitchen_request" "AsModel kitchen_edit"] no_key
  have "generate_renovation_rendering keyless_env fresh_world (AsModel kitchen_request)
          = (Inl missing_key_error, fresh_world)
        \<and> edit_renovation_rendering keyless_env fresh_world (AsModel kitchen_edit)
          = (Inl missing_key_error, fresh_world)"
    by blast
  with key no_key g d show ?thesis by blast
qed

text \<open>
  C8 as the specification states it fails: with no API key in the environment, a call
  of either tool ends in a \<^verbatim>\<open>ValueError\<close> that reaches the caller, not in a text.
\<close>

theorem unhandled_error_without_key_counterexample:
  "fst (generate_renovation_rendering keyless_env fresh_world (AsModel kitchen_request))
     = Inl (ValueError ''GEMINI_API_KEY or GOOGLE_API_KEY environment variable not set.'')
   \<and> fst (edit_renovation_rendering keyless_env fresh_world (AsModel kitchen_edit))
     = Inl (ValueError ''GEMINI_API_KEY or GOOGLE_API_KEY environment variable not set.'')"
  by (simp add: generate_renovation_rendering_def edit_renovation_rendering_def
      keyless_env_def frontend_env_def missing_key_error_def)

text \<open>
  C4 (amended). When \<^verbatim>\<open>edit_renovation_rendering\<close> is called for a file name that the
  artifact store does not deliver (loading raises or returns nothing) and that the file
  system does not deliver either (no such file, or reading raises), the session state
  and the files are left as they were. With \<^verbatim>\<open>GEMINI_API_KEY\<close> or \<^verbatim>\<open>GOOGLE_API_KEY\<close> in
  the environment the call returns a text that is not a success message: "Could not
  find image: ..." when the client could be made, the editing error text otherwise.
  With neither variable set the call returns nothing: it raises \<^verbatim>\<open>ValueError\<close>.
\<close>

theorem missing_source_image_is_reported:
  assumes "coerce_inputs args = Inr inputs"
    and "\<forall>p. load_artifact e (artifact_filename inputs) \<noteq> Inr (Some p)"
    and "files w (artifact_filename inputs) = None \<or> read_raises e (artifact_filename inputs)"
  shows "snd (edit_renovation_rendering e w args) = w
         \<and> (api_key_set e \<longrightarrow>
              (\<exists>m. fst (edit_renovation_rendering e w args) = Inr m \<and> \<not> is_success m))
         \<and> (api_key_set e \<and> new_client e = None \<longrightarrow>
              fst (edit_renovation_rendering e w args)
                = Inr (CouldNotFindImage (artifact_filename inputs)))
         \<and> (\<not> api_key_set e \<longrightarrow>
              fst (edit_renovation_rendering e w args) = Inl missing_key_error)"
proof -
  from assms(2,3) have none: "edit_load_image e w (artifact_filename inputs) = None"
    by (rule edit_load_image_None)
  have tried: "edit_try e w args = (Inr (CouldNotFindImage (artifact_filename inputs)), w)
             \<or> (\<exists>err. edit_try e w args = (Inl err, w))"
    using assms(1) none by (cases "new_client e") (simp_all add: edit_try_def)
  have made: "new_client e = None \<Longrightarrow>
              edit_try e w args = (Inr (CouldNotFindImage (artifact_filename inputs)), w)"
    using assms(1) none by (simp add: edit_try_def)
  show ?thesis
  proof (cases "api_key_set e")
    case False
    then show ?thesis by (simp add: edit_without_key)
  next
    case True
    with tried made show ?thesis
      by (auto simp add: edit_with_key)
  qed
qed

theorem missing_source_image_is_reported_witness:
  "coerce_inputs (AsModel kitchen_edit) = Inr kitchen_edit
   \<and> load_artifact frontend_env (artifact_filename kitchen_edit) = Inl no_artifact_service
   \<and> files fresh_world (artifact_filename kitchen_edit) = None
   \<and> api_key_set frontend_env
   \<and> edit_renovation_rendering frontend_env fresh_world (AsModel kitchen_edit)
       = (Inr (CouldNotFindImage ''kitchen_v1.png''), fresh_world)
   \<and> load_artifact keyless_env (artifact_filename kitchen_edit) = Inl no_artifact_service
   \<and> \<not> api_key_set keyless_env
   \<and> edit_renovation_rendering keyless_env fresh_world (AsModel kitchen_edit)
       = (Inl missing_key_error, fresh_world)"
proof -
  have a: "coerce_inputs (AsModel kitchen_edit) = Inr kitchen_edit" by simp
  have b: "load_artifact frontend_env (artifact_filename kitchen_edit) = Inl no_artifact_service"
    by (simp add: frontend_env_def)
  then have b': "\<forall>p. load_artifact frontend_env (artifact_filename kitchen_edit) \<noteq> Inr (Some p)"
    by simp
  have c: "files fresh_world (artifact_filename kitchen_edit) = None"
    by (simp add: fresh_world_def)
  then have c': "files fresh_world (artifact_filename kitchen_edit) = None
                 \<or> read_raises frontend_env (artifact_filename kitchen_edit)" ..
  have key: "api_key_set frontend_env" and client: "new_client frontend_env = None"
    by (simp_all add: api_key_set_def frontend_env_def)
  have name: "artifact_filename kitchen_edit = ''kitchen_v1.png''"
    by (simp add: kitchen_edit_def)
  from missing_source_image_is_reported [OF a b' c'] key client name
  have with_key: "edit_renovation_rendering frontend_env fresh_world (AsModel kitchen_edit)
          = (Inr (CouldNotFindImage ''kitchen_v1.png''), fresh_world)"
    by (simp add: prod_eq_iff)
  have k: "load_artifact keyless_env (artifact_filename kitchen_edit) = Inl no_artifact_service"
    by (simp add: keyless_env_def frontend_env_def)
  then have k': "\<forall>p. load_artifact keyless_env (artifact_filename kitchen_edit) \<noteq> Inr (Some p)"
    by simp
  from c have c'': "files fresh_world (artifact_filename kitchen_edit) = None
                  \<or> read_raises keyless_env (artifact_filename kitchen_edit)" ..
  have no_key: "\<not> api_key_set keyless_env"
    by (simp add: api_key_set_def keyless_env_def frontend_env_def)
  from missing_source_image_is_reported [OF a k' c''] no_key
  have without_key: "edit_renovation_rendering keyless_env fresh_world (AsModel kitchen_edit)
          = (Inl missing_key_error, fresh_world)"
    by (simp add: prod_eq_iff)
  from a b c key with_key k no_key without_key show ?thesis by blast
qed

text \<open>
  C4 as the specification states it fails: with no API key in the environment, an edit
  of \<^verbatim>\<open>kitchen_v1.png\<close>, which neither the artifact store nor the file system delivers,
  returns no message; the \<^verbatim>\<open>ValueError\<close> of the key check reaches the caller.
\<close>

theorem missing_source_image_without_key_counterexample:
  "coerce_inputs (AsModel kitchen_edit) = Inr kitchen_edit
   \<and> artifact_filename kitchen_edit = ''kitchen_v1.png''
   \<and> load_artifact keyless_env ''kitchen_v1.png''
       = Inl (ValueError ''Artifact service is not initialized.'')
   \<and> files fresh_world ''kitchen_v1.png'' = None
   \<and> fst (edit_renovation_rendering keyless_env fresh_world (AsModel kitchen_edit))
       = Inl (ValueError ''GEMINI_API_KEY or GOOGLE_API_KEY environment variable not set.'')"
  by (simp add: edit_renovation_rendering_def keyless_env_def frontend_env_def
      missing_key_error_def no_artifact_service_def fresh_world_def kitchen_edit_def)

text \<open>
  C5. Let the API key be set. A call of either tool returns a text, and when the text
  is not a success message the session state and the files are exactly as before the
  call: nothing was appended to a history, and no current version or file name was
  changed. When the client cannot be made, or the response stream ends or raises
  before it has yielded image data, the text returned is not a success message.
\<close>

theorem failed_call_commits_nothing:
  assumes "api_key_set e"
  shows "(\<exists>m. fst (generate_renovation_rendering e w generate_args) = Inr m
              \<and> (\<not> is_success m \<longrightarrow> snd (generate_renovation_rendering e w generate_args) = w))
         \<and> (\<exists>m. fst (edit_renovation_rendering e w edit_args) = Inr m
              \<and> (\<not> is_success m \<longrightarrow> snd (edit_renovation_rendering e w edit_args) = w))
         \<and> (new_client e \<noteq> None
              \<or> (\<forall>content_parts. no_image_reached (generate_content_stream e content_parts))
            \<longrightarrow> (\<exists>m. generate_renovation_rendering e w generate_args = (Inr m, w) \<and> \<not> is_success m)
              \<and> (\<exists>m. edit_renovation_rendering e w edit_args = (Inr m, w) \<and> \<not> is_success m))"
proof -
  from generate_returns_text [OF assms] obtain gm
    where gm: "fst (generate_renovation_rendering e w generate_args) = Inr gm" by blast
  from edit_returns_text [OF assms] obtain em
    where em: "fst (edit_renovation_rendering e w edit_args) = Inr em" by blast
  have g: "\<not> is_success gm \<longrightarrow> snd (generate_renovation_rendering e w generate_args) = w"
    using generate_failure_keeps_world [OF gm] by blast
  have d: "\<not> is_success em \<longrightarrow> snd (edit_renovation_rendering e w edit_args) = w"
    using edit_failure_keeps_world [OF em] by blast
  have cause: "(\<exists>m. generate_renovation_rendering e w generate_args = (Inr m, w) \<and> \<not> is_success m)
               \<and> (\<exists>m. edit_renovation_rendering e w edit_args = (Inr m, w) \<and> \<not> is_success m)"
    if c: "new_client e \<noteq> None
           \<or> (\<forall>content_parts. no_image_reached (generate_content_stream e content_parts))"
  proof
    from generate_try_no_image [OF c, of w generate_args] assms
    show "\<exists>m. generate_renovation_rendering e w generate_args = (Inr m, w) \<and> \<not> is_success m"
      by (auto simp add: generate_with_key)
  next
    from edit_try_no_image [OF c, of w edit_args] obtain r
      where r: "edit_try e w edit_args = (r, w)" and ns: "\<forall>m. r = Inr m \<longrightarrow> \<not> is_success m"
      by blast
    with assms show "\<exists>m. edit_renovation_rendering e w edit_args = (Inr m, w) \<and> \<not> is_success m"
      by (cases r) (simp_all add: edit_with_key)
  qed
  from gm g em d cause show ?thesis by blast
qed

theorem failed_call_commits_nothing_witness:
  "api_key_set talking_env \<and> api_key_set overloaded_env
   \<and> (\<forall>content_parts. no_image_reached (generate_content_stream talking_env content_parts))
   \<and> (\<forall>content_parts. no_image_reached (generate_content_stream overloaded_env content_parts))
   \<and> generate_renovation_rendering talking_env kitchen_world (AsModel kitchen_request)
       = (Inr NoRenderingGenerated, kitchen_world)
   \<and> edit_renovation_rendering talking_env kitchen_world (AsModel kitchen_edit)
       = (Inr NoEditedRenderingGenerated, kitchen_world)
   \<and> generate_renovation_rendering overloaded_env kitchen_world (AsModel kitchen_request)
       = (Inr (GenerateError (ExternalError ''503 UNAVAILABLE'')), kitchen_world)
   \<and> edit_renovation_rendering overloaded_env kitchen_world (AsModel kitchen_edit)
       = (Inr (EditError (ExternalError ''503 UNAVAILABLE'')), kitchen_world)
   \<and> history (st kitchen_world) ''kitchen'' = Some [(1, ''kitchen_v1.png'')]"
proof -
  have k1: "api_key_set talking_env" and k2: "api_key_set overloaded_env"
    by (simp_all add: api_key_set_def example_defs)
  have s1: "\<forall>content_parts. no_image_reached (generate_content_stream talking_env content_parts)"
    by (simp add: example_defs chunk_image_def image_data_def)
  have s2: "\<forall>content_parts. no_image_reached (generate_content_stream overloaded_env content_parts)"
    by (simp add: example_defs chunk_image_def image_data_def)
  have g1: "fst (generate_renovation_rendering talking_env kitchen_world (AsModel kitchen_request))
              = Inr NoRenderingGenerated"
    by (simp add: tool_defs example_defs)
  have e1: "fst (edit_renovation_rendering talking_env kitchen_world (AsModel kitchen_edit))
              = Inr NoEditedRenderingGenerated"
    by (simp add: tool_defs example_defs)
  have g2: "fst (generate_renovation_rendering overloaded_env kitchen_world (AsModel kitchen_request))
              = Inr (GenerateError (ExternalError ''503 UNAVAILABLE''))"
    by (simp add: tool_defs example_defs)
  have e2: "fst (edit_renovation_rendering overloaded_env kitchen_world (AsModel kitchen_edit))
              = Inr (EditError (ExternalError ''503 UNAVAILABLE''))"
    by (simp add: tool_defs example_defs)
  have h: "history (st kitchen_world) ''kitchen'' = Some [(1, ''kitchen_v1.png'')]"
    by (simp add: kitchen_world_def update_asset_version_history empty_state_def get_default_def)
  from failed_call_commits_nothing
         [OF k1, of kitchen_world "AsModel kitchen_request" "AsModel kitchen_edit"] g1 e1
  have a: "snd (generate_renovation_rendering talking_env kitchen_world (AsModel kitchen_request))
             = kitchen_world"
    and b: "snd (edit_renovation_rendering talking_env kitchen_world (AsModel kitchen_edit))
             = kitchen_world"
    by auto
  from failed_call_commits_nothing
         [OF k2, of kitchen_world "AsModel kitchen_request" "AsModel kitchen_edit"] g2 e2
  have c: "snd (generate_renovation_rendering overloaded_env kitchen_world (AsModel kitchen_request))
             = kitchen_world"
    and d: "snd (edit_renovation_rendering overloaded_env kitchen_world (AsModel kitchen_edit))
             = kitchen_world"
    by auto
  from k1 k2 s1 s2 g1 e1 g2 e2 a b c d h show ?thesis
    by (simp add: prod_eq_iff)
qed









lemma before_first_occurrence_unique:
  assumes "before_first_occurrence sep s b1" and "before_first_occurrence sep s b2"
  shows "b1 = b2"
proof -
  from assms obtain r1 r2 where s1: "s = b1 @ sep @ r1" and s2: "s = b2 @ sep @ r2"
    unfolding before_first_occurrence_def by blast
  from assms(1) s2 have "length b1 \<le> length b2"
    unfolding before_first_occurrence_def by blast
  moreover from assms(2) s1 have "length b2 \<le> length b1"
    unfolding before_first_occurrence_def by blast
  ultimately have "length b1 = length b2" by simp
  with s1 s2 show ?thesis by (metis append_eq_append_conv)
qed

lemma edit_success_shape:
  assumes "fst (edit_renovation_rendering e w args) = Inr (EditedOK f v a)"
    and "coerce_inputs args = Inr inputs"
  shows "a = resolve_asset_name (st w) inputs
         \<and> v = fst (get_next_version_number (st w) a)
         \<and> f = create_versioned_filename a v default_extension"
proof -
  have key: "api_key_set e"
  proof (rule ccontr)
    assume "\<not> api_key_set e"
    with assms(1) show False by (simp add: edit_without_key)
  qed
  obtain r w' where t: "edit_try e w args = (r, w')"
    by (cases "edit_try e w args")
  with assms(1) key have r: "r = Inr (EditedOK f v a)"
    by (cases r) (simp_all add: edit_with_key)
  from edit_try_cases [of e w args] t r assms(2) show ?thesis
    by (auto simp add: edit_image_found_fst)
qed

text \<open>
  C10. Let the arguments of \<^verbatim>\<open>edit_renovation_rendering\<close> give no asset name
  (\<^verbatim>\<open>inputs.asset_name\<close> is \<^verbatim>\<open>None\<close> or empty, which is what the code tests). Then the
  asset name of the new version is the session's \<^verbatim>\<open>current_asset_name\<close> when that is set
  (present and not empty); otherwise the portion of \<^verbatim>\<open>artifact_filename\<close> before the
  first occurrence of \<^verbatim>\<open>_v\<close> when the file name contains \<^verbatim>\<open>_v\<close>; otherwise
  \<^verbatim>\<open>renovation_rendering\<close>. And whenever the tool reports success, the asset name it
  reports is that name, the version is the next version of that name, and the file
  name is the name followed by \<^verbatim>\<open>_v\<close>, the version in decimal and \<^verbatim>\<open>.png\<close>.
\<close>

theorem edit_asset_name_resolution:
  assumes "\<not> truthy (edit_asset_name inputs)"
  shows "(truthy (current_asset_name s) \<longrightarrow>
            current_asset_name s = Some (resolve_asset_name s inputs))
         \<and> (\<not> truthy (current_asset_name s) \<and> occurs_in ''_v'' (artifact_filename inputs) \<longrightarrow>
            before_first_occurrence ''_v'' (artifact_filename inputs) (resolve_asset_name s inputs))
         \<and> (\<not> truthy (current_asset_name s) \<and> \<not> occurs_in ''_v'' (artifact_filename inputs) \<longrightarrow>
            resolve_asset_name s inputs = ''renovation_rendering'')
         \<and> (\<forall>e w args f v a.
              st w = s \<and> coerce_inputs args = Inr inputs
              \<and> fst (edit_renovation_rendering e w args) = Inr (EditedOK f v a) \<longrightarrow>
              a = resolve_asset_name s inputs
              \<and> v = fst (get_next_version_number s a)
              \<and> f = a @ ''_v'' @ str_int v @ ''.png'')"
proof -
  from assms have given: "truthy_value (edit_asset_name inputs) = None"
    by (simp add: truthy_value_def)
  have a: "current_asset_name s = Some (resolve_asset_name s inputs)"
    if "truthy (current_asset_name s)"
    using that given
    by (auto simp add: resolve_asset_name_def truthy_value_def truthy_def split: option.splits)
  have b: "before_first_occurrence ''_v'' (artifact_filename inputs) (resolve_asset_name s inputs)"
    if "\<not> truthy (current_asset_name s)" and occ: "occurs_in ''_v'' (artifact_filename inputs)"
  proof -
    have "''_v'' \<noteq> []" by simp
    from py_split_head [OF this occ] obtain base pieces
      where split: "py_split ''_v'' (artifact_filename inputs) = base # pieces"
        and first: "before_first_occurrence ''_v'' (artifact_filename inputs) base"
      by blast
    from that given split have "resolve_asset_name s inputs = base"
      by (simp add: resolve_asset_name_def truthy_value_def py_in_iff)
    with first show ?thesis by simp
  qed
  have c: "resolve_asset_name s inputs = ''renovation_rendering''"
    if "\<not> truthy (current_asset_name s)" and "\<not> occurs_in ''_v'' (artifact_filename inputs)"
    using that given
    by (simp add: resolve_asset_name_def truthy_value_def py_in_iff)
  have d: "a = resolve_asset_name s inputs \<and> v = fst (get_next_version_number s a)
           \<and> f = a @ ''_v'' @ str_int v @ ''.png''"
    if "st w = s" and "coerce_inputs args = Inr inputs"
      and "fst (edit_renovation_rendering e w args) = Inr (EditedOK f v a)"
    for e w args f v a
    using edit_success_shape [OF that(3) that(2)] that(1)
    by (simp add: create_versioned_filename_def default_extension_def)
  from a b c d show ?thesis by blast
qed

theorem edit_asset_name_resolution_witness:
  "\<not> truthy (edit_asset_name kitchen_edit) \<and> truthy (current_asset_name (st kitchen_world))
   \<and> resolve_asset_name (st kitchen_world) kitchen_edit = ''kitchen''
   \<and> \<not> truthy (edit_asset_name bath_edit) \<and> \<not> truthy (current_asset_name empty_state)
   \<and> occurs_in ''_v'' (artifact_filename bath_edit)
   \<and> before_first_occurrence ''_v'' ''bath_v3_v1.png'' (resolve_asset_name empty_state bath_edit)
   \<and> resolve_asset_name empty_state bath_edit = ''bath''
   \<and> \<not> truthy (edit_asset_name room_edit)
   \<and> \<not> occurs_in ''_v'' (artifact_filename room_edit)
   \<and> resolve_asset_name empty_state room_edit = ''renovation_rendering''
   \<and> fst (edit_renovation_rendering drawing_env upload_world (AsModel room_edit))
       = Inr (EditedOK ''renovation_rendering_v1.png'' 1 ''renovation_rendering'')"
proof -
  have k1: "\<not> truthy (edit_asset_name kitchen_edit)"
    and k2: "truthy (current_asset_name (st kitchen_world))"
    by (simp_all add: truthy_def kitchen_edit_def kitchen_world_def)
  from edit_asset_name_resolution [OF k1, of "st kitchen_world"] k2
  have "current_asset_name (st kitchen_world) = Some (resolve_asset_name (st kitchen_world) kitchen_edit)"
    by blast
  then have k3: "resolve_asset_name (st kitchen_world) kitchen_edit = ''kitchen''"
    by (simp add: kitchen_world_def)
  have b1: "\<not> truthy (edit_asset_name bath_edit)"
    and b2: "\<not> truthy (current_asset_name empty_state)"
    by (simp_all add: truthy_def bath_edit_def empty_state_def)
  have "py_in ''_v'' (artifact_filename bath_edit)"
    by (simp add: py_in_def bath_edit_def starts_with_def)
  then have b3: "occurs_in ''_v'' (artifact_filename bath_edit)"
    by (simp add: py_in_iff)
  from edit_asset_name_resolution [OF b1, of empty_state] b2 b3
  have b4: "before_first_occurrence ''_v'' ''bath_v3_v1.png'' (resolve_asset_name empty_state bath_edit)"
    by (simp add: bath_edit_def)
  have b5: "resolve_asset_name empty_state bath_edit = ''bath''"
    by (simp add: resolve_asset_name_def truthy_value_def truthy_def bath_edit_def empty_state_def
        py_in_def py_split.simps starts_with_def)
  have r1: "\<not> truthy (edit_asset_name room_edit)"
    by (simp add: truthy_def room_edit_def)
  have "\<not> py_in ''_v'' (artifact_filename room_edit)"
    by (simp add: py_in_def room_edit_def starts_with_def)
  then have r2: "\<not> occurs_in ''_v'' (artifact_filename room_edit)"
    by (simp add: py_in_iff)
  from edit_asset_name_resolution [OF r1, of empty_state] b2 r2
  have r3: "resolve_asset_name empty_state room_edit = ''renovation_rendering''"
    by blast
  have r4: "fst (edit_renovation_rendering drawing_env upload_world (AsModel room_edit))
              = Inr (EditedOK ''renovation_rendering_v1.png'' 1 ''renovation_rendering'')"
    by (simp add: tool_defs example_defs drawing_env_def upload_world_def room_edit_def
        py_in_def starts_with_def create_versioned_filename_def default_extension_def
        str_int_def str_nat.simps digit_char_def)
  from k1 k2 k3 b1 b2 b3 b4 b5 r1 r2 r3 r4 show ?thesis by blast
qed

lemma versions_of_update:
  "versions_of (update_asset_version s a v f) b =
     (if b = a then versions_of s a @ [v] else versions_of s b)"
  by (simp add: versions_of_def update_asset_version_history get_default_def)

lemma contiguous_update:
  assumes "contiguous s"
  shows "contiguous (update_asset_version s a (fst (get_next_version_number s a)) f)"
  unfolding contiguous_def
proof
  fix b
  let ?s' = "update_asset_version s a (fst (get_next_version_number s a)) f"
  from assms have old: "versions_of s b = [1..int (length (versions_of s b))]"
    and cur: "get_default (get_dict (asset_versions s)) b 0 = int (length (versions_of s b))"
    unfolding contiguous_def by blast+
  show "versions_of ?s' b = [1..int (length (versions_of ?s' b))]
        \<and> get_default (get_dict (asset_versions ?s')) b 0 = int (length (versions_of ?s' b))"
  proof (cases "b = a")
    case False
    with old cur show ?thesis
      by (simp add: versions_of_update update_asset_version_versions get_dict_def get_default_def)
  next
    case True
    let ?n = "int (length (versions_of s a))"
    from cur True have next_v: "fst (get_next_version_number s a) = ?n + 1"
      by (simp add: get_next_version_number_fst)
    have "[1..?n + 1] = [1..?n] @ [?n + 1]"
      by (simp add: upto_rec2)
    with old True next_v have "versions_of ?s' b = [1..int (length (versions_of ?s' b))]"
      by (simp add: versions_of_update add.commute)
    moreover from True next_v
    have "get_default (get_dict (asset_versions ?s')) b 0 = int (length (versions_of ?s' b))"
      by (simp add: versions_of_update update_asset_version_versions get_dict_def get_default_def)
    ultimately show ?thesis by blast
  qed
qed

lemma contiguous_empty: "contiguous empty_state"
  by (simp add: contiguous_def versions_of_def empty_state_def get_default_def get_dict_def)

lemma contiguous_other_keys:
  "contiguous (s\<lparr>last_generated_rendering := x\<rparr>) = contiguous s"
  "contiguous (s\<lparr>current_asset_name := y\<rparr>) = contiguous s"
  by (simp_all add: contiguous_def versions_of_def)

lemma next_version_other_keys:
  "get_next_version_number (s\<lparr>last_generated_rendering := x, current_asset_name := y\<rparr>) a
     = (fst (get_next_version_number s a), s\<lparr>last_generated_rendering := x, current_asset_name := y\<rparr>)"
  by (simp add: get_next_version_number_def Let_def)

text \<open>
  C2, at the failing input: a generation for the new asset \<^verbatim>\<open>"kitchen"\<close> in a fresh
  session, with an artifact service that returns version 2 for the file. The tool
  reports version 1 of \<^verbatim>\<open>kitchen_v1.png\<close>, and the history it leaves records version 2
  for that file: the versions recorded after one successful commit are \<open>[2]\<close>, not \<open>[1]\<close>.
\<close>

theorem generate_records_artifact_version:
  "fst (generate_renovation_rendering resaving_env fresh_world (AsModel kitchen_request))
     = Inr (GeneratedOK ''kitchen_v1.png'' 1 ''kitchen'')
   \<and> history (st (snd (generate_renovation_rendering resaving_env fresh_world
                         (AsModel kitchen_request)))) ''kitchen''
     = Some [(2, ''kitchen_v1.png'')]
   \<and> versions_of (st (snd (generate_renovation_rendering resaving_env fresh_world
                         (AsModel kitchen_request)))) ''kitchen'' = [2]
   \<and> fst (get_next_version_number (st (snd (generate_renovation_rendering resaving_env
                         fresh_world (AsModel kitchen_request)))) ''kitchen'') = 3"
  by (simp add: tool_defs example_defs drawing_env_def resaving_env_def versions_of_def
      create_versioned_filename_def default_extension_def str_int_def str_nat.simps
      digit_char_def)

lemma save_artifact_safely_first_save:
  assumes "first_saves_only e" and "save_artifact_safely e filename artifact = (saved, av)"
  shows "\<not> saved \<or> av = None \<or> av = Some 0"
proof (cases "save_artifact e")
  case None
  with assms(2) show ?thesis by (simp add: save_artifact_safely_def)
next
  case (Some save)
  show ?thesis
  proof (cases "save filename artifact")
    case (Inl err)
    with Some assms(2) show ?thesis
      by (auto simp add: save_artifact_safely_def split: exn.splits)
  next
    case (Inr v)
    with Some assms(1) have "v = 0"
      unfolding first_saves_only_def by auto
    with Some Inr assms(2) show ?thesis
      by (auto simp add: save_artifact_safely_def)
  qed
qed

lemma edit_keeps_contiguous:
  assumes "contiguous (st w)"
  shows "contiguous (st (snd (edit_renovation_rendering e w args)))"
proof (cases "api_key_set e")
  case False
  with assms show ?thesis by (simp add: edit_without_key)
next
  case True
  have found: "contiguous (st (snd (edit_image_found e w a fn inline data)))" for a fn inline data
    using contiguous_update [OF assms, of a fn]
    by (simp add: edit_image_found_st contiguous_other_keys)
  from edit_try_cases [of e w args] True assms found show ?thesis
    by (auto simp add: edit_with_key)
qed

lemma generate_keeps_contiguous:
  assumes "contiguous (st w)" and "first_saves_only e"
  shows "contiguous (st (snd (generate_renovation_rendering e w args)))"
proof (cases "api_key_set e")
  case False
  with assms show ?thesis by (simp add: generate_without_key)
next
  case True
  have found: "contiguous (st (snd (generate_image_found e w a fn inline data)))"
    for a fn inline data
  proof -
    let ?s = "(st w)\<lparr>last_generated_rendering := Some fn, current_asset_name := Some a\<rparr>"
    obtain saved av where sv: "save_artifact_safely e fn (Part (Some inline) None) = (saved, av)"
      by (cases "save_artifact_safely e fn (Part (Some inline) None)")
    from save_artifact_safely_first_save [OF assms(2) sv]
    have local: "\<not> saved \<or> av = None \<or> av = Some 0" .
    have same: "fst (get_next_version_number ?s a) = fst (get_next_version_number (st w) a)"
      by (simp add: get_next_version_number_def Let_def)
    from assms(1) have "contiguous ?s" by (simp add: contiguous_other_keys)
    from contiguous_update [OF this, of a fn] show ?thesis
      unfolding generate_image_found_st_local [OF sv local] same .
  qed
  from generate_try_cases [of e w args] True assms(1) found show ?thesis
    by (auto simp add: generate_with_key)
qed

text \<open>
  Edits, and generations whose artifact service returns no version but 0, keep the
  versions contiguous: after any sequence of such calls in a fresh session, every
  asset's history counts \<open>1, 2, ..., n\<close>.
\<close>

lemma run_calls_keeps_contiguous:
  "contiguous (st w) \<Longrightarrow> list_all commits_local_version cs \<Longrightarrow> contiguous (st (run_calls cs w))"
proof (induction cs arbitrary: w)
  case Nil
  then show ?case by simp
next
  case (Cons c cs)
  from Cons.prems have "contiguous (st (run_call c w))"
    by (cases c) (simp_all add: generate_keeps_contiguous edit_keeps_contiguous)
  with Cons show ?case by simp
qed

lemma local_commits_count_from_one:
  assumes "list_all commits_local_version cs"
  shows "versions_of (st (run_calls cs fresh_world)) a
           = [1..int (length (versions_of (st (run_calls cs fresh_world)) a))]"
proof -
  have "contiguous (st fresh_world)"
    by (simp add: fresh_world_def contiguous_empty)
  from run_calls_keeps_contiguous [OF this assms] show ?thesis
    unfolding contiguous_def by blast
qed

text \<open>Both tools keep the store consistent, whatever the collaborators do.\<close>

lemma store_consistent_other_keys:
  "store_consistent (s\<lparr>last_generated_rendering := x\<rparr>) = store_consistent s"
  "store_consistent (s\<lparr>current_asset_name := y\<rparr>) = store_consistent s"
  by (simp_all add: store_consistent_def cong: option.case_cong)

lemma edit_keeps_store_consistent:
  assumes "store_consistent (st w)"
  shows "store_consistent (st (snd (edit_renovation_rendering e w args)))"
proof (cases "api_key_set e")
  case False
  with assms show ?thesis by (simp add: edit_without_key)
next
  case True
  have found: "store_consistent (st (snd (edit_image_found e w a fn inline data)))"
    for a fn inline data
    using store_consistent_update [OF assms]
    by (simp add: edit_image_found_st store_consistent_other_keys)
  from edit_try_cases [of e w args] True assms found show ?thesis
    by (auto simp add: edit_with_key)
qed

lemma generate_keeps_store_consistent:
  assumes "store_consistent (st w)"
  shows "store_consistent (st (snd (generate_renovation_rendering e w args)))"
proof (cases "api_key_set e")
  case False
  with assms show ?thesis by (simp add: generate_without_key)
next
  case True
  have found: "store_consistent (st (snd (generate_image_found e w a fn inline data)))"
    for a fn inline data
  proof -
    from assms
    have "store_consistent ((st w)\<lparr>last_generated_rendering := Some fn, current_asset_name := Some a\<rparr>)"
      by (simp add: store_consistent_other_keys)
    from store_consistent_update [OF this] generate_image_found_st [of e w a fn inline data]
    show ?thesis by auto
  qed
  from generate_try_cases [of e w args] True assms found show ?thesis
    by (auto simp add: generate_with_key)
qed

end
